theory Spec2Isabelle
  imports Complex_Main "HOL-Library.Word"
begin

section \<open>JavaScript values\<close>

text \<open>
  A JavaScript string is a sequence of UTF-16 code units; \<open>length\<close> counts code units, as
  \<^verbatim>\<open>String.prototype.length\<close> does. \<open>lit\<close> embeds the ASCII literals of the source.
\<close>

type_synonym jsstring = "16 word list"

definition lit :: "string \<Rightarrow> jsstring" where
  "lit s = map (\<lambda>c. of_nat (of_char c)) s"

text \<open>
  \<^verbatim>\<open>String.prototype.trim\<close> removes the ECMAScript WhiteSpace and LineTerminator code
  points from both ends: TAB, LF, VT, FF, CR, SP, NBSP, U+1680, U+2000..U+200A, U+2028,
  U+2029, U+202F, U+205F, U+3000 and U+FEFF.
\<close>

definition is_ws :: "16 word \<Rightarrow> bool" where
  "is_ws c = (c \<in> {0x09, 0x0A, 0x0B, 0x0C, 0x0D, 0x20, 0xA0, 0x1680, 0x2028, 0x2029,
                      0x202F, 0x205F, 0x3000, 0xFEFF} \<or> (0x2000 \<le> c \<and> c \<le> 0x200A))"

definition trim :: "jsstring \<Rightarrow> jsstring" where
  "trim s = rev (dropWhile is_ws (rev (dropWhile is_ws s)))"

text \<open>
  The values a parsed request body is made of, and the values the handlers put into a
  response. \<open>Num\<close> holds the finite doubles, read as rationals; \<open>Infinite\<close> is the number
  \<^verbatim>\<open>Infinity\<close> (\<open>True\<close>) or \<^verbatim>\<open>-Infinity\<close> (\<open>False\<close>), which \<^verbatim>\<open>JSON.parse\<close> yields for a
  number literal beyond the range of the doubles, such as \<^verbatim>\<open>1e999\<close>. An object is its list
  of own properties, each key once.
\<close>

datatype jsval =
    Undefined
  | Null
  | Bool bool
  | Num rat
  | Infinite bool
  | Str jsstring
  | Arr "jsval list"
  | Obj "(jsstring \<times> jsval) list"

text \<open>ToBoolean, as used by \<^verbatim>\<open>!v\<close>, \<^verbatim>\<open>!!v\<close> and \<^verbatim>\<open>v || d\<close>.\<close>

fun truthy :: "jsval \<Rightarrow> bool" where
  "truthy Undefined = False"
| "truthy Null = False"
| "truthy (Bool b) = b"
| "truthy (Num n) = (n \<noteq> 0)"
| "truthy (Infinite b) = True"
| "truthy (Str s) = (s \<noteq> [])"
| "truthy (Arr vs) = True"
| "truthy (Obj kvs) = True"

text \<open>
  The property read \<^verbatim>\<open>v.k\<close> on a value other than \<^verbatim>\<open>undefined\<close> and \<^verbatim>\<open>null\<close>: a missing
  property reads as \<^verbatim>\<open>undefined\<close>.
\<close>

fun get_prop :: "jsval \<Rightarrow> string \<Rightarrow> jsval" where
  "get_prop (Obj kvs) k = (case map_of kvs (lit k) of None \<Rightarrow> Undefined | Some v \<Rightarrow> v)"
| "get_prop v k = Undefined"

text \<open>
  Whether ToString returns for a value, as a template literal \<^verbatim>\<open>`${v}`\<close> applies it. It
  raises a TypeError for an object with an own property \<^verbatim>\<open>toString\<close>: a parsed body holds
  no functions, so that property is not callable, and \<^verbatim>\<open>valueOf\<close> (own and not callable,
  or inherited and returning the object) gives no primitive either. An object without it
  is converted by \<^verbatim>\<open>Object.prototype.toString\<close>. An array is converted by \<^verbatim>\<open>join\<close>, which
  converts every element but \<^verbatim>\<open>undefined\<close> and \<^verbatim>\<open>null\<close>.
\<close>

fun stringifies :: "jsval \<Rightarrow> bool" where
  "stringifies (Arr vs) = list_all stringifies vs"
| "stringifies (Obj kvs) = (map_of kvs (lit ''toString'') = None)"
| "stringifies v = True"

text \<open>
  What a client reads back from a value that \<^verbatim>\<open>JSON.stringify\<close> has written as the value of
  a property or as the element of an array: \<^verbatim>\<open>Infinity\<close> and \<^verbatim>\<open>-Infinity\<close> are written as
  \<^verbatim>\<open>null\<close>, and so is an array element \<^verbatim>\<open>undefined\<close>; a property whose value is
  \<^verbatim>\<open>undefined\<close> is left out.
\<close>

fun wire :: "jsval \<Rightarrow> jsval" where
  "wire Undefined = Null"
| "wire (Infinite b) = Null"
| "wire (Arr vs) = Arr (map wire vs)"
| "wire (Obj kvs) =
     Obj (map (\<lambda>(k, v). (k, wire v)) (filter (\<lambda>(k, v). v \<noteq> Undefined) kvs))"
| "wire v = v"

text \<open>\<^verbatim>\<open>res.json(obj)\<close> for an object literal with the given properties.\<close>

definition json :: "(string \<times> jsval) list \<Rightarrow> jsval" where
  "json kvs = wire (Obj (map (\<lambda>(k, v). (lit k, v)) kvs))"


section \<open>The relay server (server.js)\<close>

text \<open>
  What the handlers read from the process: two environment variables and the module
  variable \<^verbatim>\<open>openai\<close>, which holds a client or stays \<^verbatim>\<open>undefined\<close>.
\<close>

record server =
  OPENAI_API_KEY :: "jsstring option"
  NODE_ENV :: "jsstring option"
  openai :: bool

text \<open>
  What a handler reads from the engine while it serves one request: the clock
  (\<^verbatim>\<open>new Date().toISOString()\<close>), \<^verbatim>\<open>process.uptime()\<close>, and the message text of the
  TypeError the engine raises in this request, if it raises one (the first one leaves the
  \<^verbatim>\<open>try\<close> block, so there is at most one).
\<close>

record runtime =
  now :: jsstring
  uptime :: rat
  type_error :: jsstring

record http_response =
  status :: nat
  body :: jsval

text \<open>
  The outcome of \<^verbatim>\<open>await openai.chat.completions.create(...)\<close>: a completion, given by the
  \<^verbatim>\<open>message.content\<close> of each of its choices (\<^verbatim>\<open>null\<close> is \<open>None\<close>), or a thrown error with
  its \<^verbatim>\<open>code\<close> (\<open>None\<close> when it has none) and its \<^verbatim>\<open>message\<close>.
\<close>

datatype downstream =
    Completed "jsstring option list"
  | Rejected "jsstring option" jsstring

text \<open>The \<^verbatim>\<open>catch\<close> block of the chat handler (server.js, lines 117 to 148).\<close>

definition catch_handler :: "server \<Rightarrow> jsstring option \<Rightarrow> jsstring \<Rightarrow> http_response" where
  "catch_handler srv code message =
    (if code = Some (lit ''insufficient_quota'') then
       \<lparr>status = 429, body = json
         [(''error'', Str (lit ''API quota exceeded. Please add credits to your OpenAI account.'')),
          (''code'', Str (lit ''quota_exceeded''))]\<rparr>
     else if code = Some (lit ''invalid_api_key'') then
       \<lparr>status = 401, body = json
         [(''error'', Str (lit ''Invalid OpenAI API key. Please check your configuration.'')),
          (''code'', Str (lit ''invalid_key''))]\<rparr>
     else if code = Some (lit ''rate_limit_exceeded'') then
       \<lparr>status = 429, body = json
         [(''error'', Str (lit ''Rate limit exceeded. Please try again in a moment.'')),
          (''code'', Str (lit ''rate_limit''))]\<rparr>
     else if code = Some (lit ''context_length_exceeded'') then
       \<lparr>status = 400, body = json
         [(''error'', Str (lit ''Message too long for the model. Please shorten your message.'')),
          (''code'', Str (lit ''context_length''))]\<rparr>
     else
       \<lparr>status = 500, body = json
         [(''error'', Str (lit ''An unexpected error occurred. Please try again.'')),
          (''code'', Str (lit ''server_error'')),
          (''details'', if NODE_ENV srv = Some (lit ''development'') then Str message
                        else Undefined)]\<rparr>)"

text \<open>
  The chat handler (server.js, lines 65 to 149). Destructuring \<^verbatim>\<open>req.body\<close> raises a
  TypeError when the body is \<^verbatim>\<open>undefined\<close> or \<^verbatim>\<open>null\<close>; so do \<^verbatim>\<open>completion.choices[0].message\<close>
  on a completion without choices and \<^verbatim>\<open>reply.substring\<close> on a \<^verbatim>\<open>null\<close> content. The
  log line before the downstream call (line 90) converts \<^verbatim>\<open>userSessionId\<close> to a string in
  its template literal and raises a TypeError when that conversion does; the call is
  then not made. Every exception ends in the \<^verbatim>\<open>catch\<close> block. A response sent by
  \<^verbatim>\<open>res.json\<close> alone has status 200. What the log lines print is left out.
\<close>

definition chat :: "server \<Rightarrow> runtime \<Rightarrow> jsval \<Rightarrow> downstream \<Rightarrow> http_response" where
  "chat srv rt req_body outcome =
    (if req_body = Undefined \<or> req_body = Null then catch_handler srv None (type_error rt)
     else
       let message = get_prop req_body ''message'';
           sessionId = get_prop req_body ''sessionId''
       in case message of
            Str m \<Rightarrow>
              if \<not> truthy message \<or> length (trim m) = 0 then
                \<lparr>status = 400, body = json
                  [(''error'', Str (lit ''Message is required and must be a non-empty string''))]\<rparr>
              else if length m > 4000 then
                \<lparr>status = 400, body = json
                  [(''error'', Str (lit ''Message too long. Please limit to 4000 characters.''))]\<rparr>
              else if \<not> openai srv then
                \<lparr>status = 500, body = json
                  [(''error'', Str (lit ''OpenAI API is not configured. Please check your API key.''))]\<rparr>
              else
                let userSessionId = (if truthy sessionId then sessionId else Str (lit ''anonymous''))
                in if \<not> stringifies userSessionId then catch_handler srv None (type_error rt)
                   else
                     (case outcome of
                        Rejected code msg \<Rightarrow> catch_handler srv code msg
                      | Completed [] \<Rightarrow> catch_handler srv None (type_error rt)
                      | Completed (None # cs) \<Rightarrow> catch_handler srv None (type_error rt)
                      | Completed (Some reply # cs) \<Rightarrow>
                          \<lparr>status = 200, body = json
                            [(''reply'', Str reply),
                             (''sources'', Arr []),
                             (''sessionId'', userSessionId),
                             (''timestamp'', Str (now rt))]\<rparr>)
          | _ \<Rightarrow>
              \<lparr>status = 400, body = json
                [(''error'', Str (lit ''Message is required and must be a non-empty string''))]\<rparr>)"

text \<open>The health handler (server.js, lines 152 to 163).\<close>

definition health :: "server \<Rightarrow> runtime \<Rightarrow> http_response" where
  "health srv rt =
    \<lparr>status = 200, body = json
      [(''status'', Str (lit ''healthy'')),
       (''timestamp'', Str (now rt)),
       (''uptime'', Num (uptime rt)),
       (''environment'',
          (case NODE_ENV srv of
             None \<Rightarrow> Str (lit ''development'')
           | Some e \<Rightarrow> if truthy (Str e) then Str e else Str (lit ''development''))),
       (''openai_configured'',
          Bool (case OPENAI_API_KEY srv of None \<Rightarrow> False | Some k \<Rightarrow> truthy (Str k))),
       (''version'', Str (lit ''1.0.0''))]\<rparr>"


section \<open>The chat client (frontend-html/script.js)\<close>

definition MAX_MESSAGE_LENGTH :: nat where
  "MAX_MESSAGE_LENGTH = 4000"

definition RETRY_ATTEMPTS :: nat where
  "RETRY_ATTEMPTS = 3"

record chat_message =
  role :: jsstring
  content :: jsstring
  timestamp :: jsstring
  sources :: "jsstring list"

text \<open>
  A \<^verbatim>\<open>confirm()\<close> dialog put before the user: the retry prompt, with the retry count its
  text shows and the message its callback would resend, or the prompt of the clear button.
\<close>

datatype dialog =
    RetryPrompt nat jsstring
  | ClearPrompt

text \<open>
  The client's state: the four fields of \<^verbatim>\<open>state\<close>; the parts of the page the handlers
  read or write (the value of the input field, whether the send button is disabled,
  whether the typing indicator and the error banner are hidden, the banner's text, the
  class and the text of the connection indicator); and the closures that wait to run:
  the \<^verbatim>\<open>message\<close> of the \<^verbatim>\<open>handleSendMessage\<close> call that awaits \<^verbatim>\<open>sendToAPI\<close>, and the
  \<^verbatim>\<open>originalMessage\<close> of every retry callback that \<^verbatim>\<open>setTimeout\<close> holds, oldest first (all
  have the same delay). \<open>confirms\<close> is the trace of the dialogs shown so far. The message
  elements of the page, the character counter, scrolling and focus are left out.
\<close>

record client_state =
  messages :: "chat_message list"
  isLoading :: bool
  sessionId :: jsstring
  retryCount :: nat
  messageInput :: jsstring
  sendButton_disabled :: bool
  typingIndicator_hidden :: bool
  errorDisplay_hidden :: bool
  errorMessage_text :: jsstring
  connectionStatus :: jsstring
  statusText :: jsstring
  inFlight :: "jsstring option"
  retryTimers :: "jsstring list"
  confirms :: "dialog list"

definition handleInputChange :: "client_state \<Rightarrow> client_state" where
  "handleInputChange s =
    (let canSend = (length (trim (messageInput s)) > 0
                    \<and> length (messageInput s) \<le> MAX_MESSAGE_LENGTH
                    \<and> \<not> isLoading s)
     in s\<lparr>sendButton_disabled := \<not> canSend\<rparr>)"

definition addMessage ::
  "jsstring \<Rightarrow> jsstring \<Rightarrow> jsstring list \<Rightarrow> jsstring \<Rightarrow> client_state \<Rightarrow> client_state" where
  "addMessage r c srcs t s =
    s\<lparr>messages := messages s @ [\<lparr>role = r, content = c, timestamp = t, sources = srcs\<rparr>]\<rparr>"

definition showTypingIndicator :: "client_state \<Rightarrow> client_state" where
  "showTypingIndicator s = s\<lparr>typingIndicator_hidden := False\<rparr>"

definition hideTypingIndicator :: "client_state \<Rightarrow> client_state" where
  "hideTypingIndicator s = s\<lparr>typingIndicator_hidden := True\<rparr>"

definition showError :: "jsstring \<Rightarrow> client_state \<Rightarrow> client_state" where
  "showError msg s = s\<lparr>errorMessage_text := msg, errorDisplay_hidden := False\<rparr>"

definition hideError :: "client_state \<Rightarrow> client_state" where
  "hideError s = s\<lparr>errorDisplay_hidden := True\<rparr>"

definition updateConnectionStatus :: "bool \<Rightarrow> client_state \<Rightarrow> client_state" where
  "updateConnectionStatus isOnline s =
    (if isOnline then s\<lparr>connectionStatus := lit ''status-dot online'', statusText := lit ''Connected''\<rparr>
     else s\<lparr>connectionStatus := lit ''status-dot offline'', statusText := lit ''Disconnected''\<rparr>)"

text \<open>
  \<^verbatim>\<open>handleSendMessage\<close> up to its \<^verbatim>\<open>await\<close> (script.js, lines 141 to 162); \<open>t\<close> is the clock
  reading \<^verbatim>\<open>addMessage\<close> stores.
\<close>

definition handleSendMessage :: "jsstring \<Rightarrow> client_state \<Rightarrow> client_state" where
  "handleSendMessage t s =
    (let message = trim (messageInput s) in
     if message = [] \<or> isLoading s then s
     else
       let s1 = addMessage (lit ''user'') message [] t s;
           s2 = handleInputChange (s1\<lparr>messageInput := []\<rparr>);
           s3 = showTypingIndicator s2;
           s4 = hideError s3
       in s4\<lparr>isLoading := True, inFlight := Some message\<rparr>)"

text \<open>
  What the \<^verbatim>\<open>try\<close> block of \<^verbatim>\<open>handleSendMessage\<close> can catch: an \<^verbatim>\<open>APIError\<close> with its status,
  message and code (\<open>None\<close> when the server sent none), or any other exception.
  \<^verbatim>\<open>sendToAPI\<close> raises only \<^verbatim>\<open>APIError\<close>: status 408 and code \<^verbatim>\<open>timeout\<close> when the request
  was aborted, status 0 and code \<^verbatim>\<open>network\<close> when \<^verbatim>\<open>fetch\<close> failed otherwise, and the status
  and code of the server's response when that is not ok.
\<close>

datatype caught =
    APIError nat jsstring "jsstring option"
  | OtherError

text \<open>\<^verbatim>\<open>handleAPIError\<close> (script.js, lines 231 to 282).\<close>

definition handleAPIError :: "caught \<Rightarrow> jsstring \<Rightarrow> jsstring \<Rightarrow> client_state \<Rightarrow> client_state" where
  "handleAPIError err originalMessage t s =
    (let default_text = lit ''Sorry, something went wrong. Please try again.'';
         (errorMessage, canRetry, s1) =
           (case err of
              APIError st msg code \<Rightarrow>
                if code = Some (lit ''timeout'') then
                  (lit ''Request timed out. Please try again.'', True, s)
                else if code = Some (lit ''network'') then
                  (lit ''Cannot connect to server. Please check if the backend is running.'',
                   False, updateConnectionStatus False s)
                else if code = Some (lit ''quota_exceeded'') then
                  (lit ''API quota exceeded. Please add credits to your OpenAI account.'', False, s)
                else if code = Some (lit ''invalid_key'') then
                  (lit ''Authentication error. Please check the API configuration.'', False, s)
                else if code = Some (lit ''rate_limit'') then
                  (lit ''Rate limit exceeded. Please wait a moment and try again.'', True, s)
                else if code = Some (lit ''context_length'') then
                  (lit ''Message too long for the model. Please shorten your message.'', False, s)
                else
                  (if msg = [] then default_text else msg, st \<ge> 500, s)
            | OtherError \<Rightarrow> (default_text, True, s));
         s2 = addMessage (lit ''error'') errorMessage [] t s1;
         s3 = showError errorMessage s2
     in if canRetry \<and> retryCount s3 < RETRY_ATTEMPTS then
          s3\<lparr>retryCount := retryCount s3 + 1, retryTimers := retryTimers s3 @ [originalMessage]\<rparr>
        else s3)"

text \<open>
  The settled \<^verbatim>\<open>sendToAPI\<close> call: the reply and sources of the response, or what the
  \<^verbatim>\<open>try\<close> block caught.
\<close>

datatype api_result =
    Resolved jsstring "jsstring list"
  | Threw caught

text \<open>
  \<^verbatim>\<open>handleSendMessage\<close> after its \<^verbatim>\<open>await\<close> (script.js, lines 162 to 174). It runs only for a
  call that is waiting; without one the state stays as it is.
\<close>

definition handleSendMessage_settled :: "api_result \<Rightarrow> jsstring \<Rightarrow> client_state \<Rightarrow> client_state" where
  "handleSendMessage_settled res t s =
    (case inFlight s of
       None \<Rightarrow> s
     | Some message \<Rightarrow>
         let s1 = (case res of
                     Resolved reply srcs \<Rightarrow>
                       (addMessage (lit ''assistant'') reply srcs t (hideTypingIndicator s))
                         \<lparr>retryCount := 0\<rparr>
                   | Threw err \<Rightarrow> handleAPIError err message t (hideTypingIndicator s))
         in handleInputChange (s1\<lparr>isLoading := False, inFlight := None\<rparr>))"

text \<open>
  The callback \<^verbatim>\<open>handleAPIError\<close> gives to \<^verbatim>\<open>setTimeout\<close> (script.js, lines 274 to 280), run
  for the oldest waiting timer; \<open>answer\<close> is what the user answers to \<^verbatim>\<open>confirm\<close>.
\<close>

definition retryCallback :: "bool \<Rightarrow> jsstring \<Rightarrow> client_state \<Rightarrow> client_state" where
  "retryCallback answer t s =
    (case retryTimers s of
       [] \<Rightarrow> s
     | originalMessage # rest \<Rightarrow>
         let s1 = s\<lparr>retryTimers := rest,
                    confirms := confirms s @ [RetryPrompt (retryCount s) originalMessage]\<rparr>
         in if answer then
              handleSendMessage t (handleInputChange (s1\<lparr>messageInput := originalMessage\<rparr>))
            else s1)"

text \<open>\<^verbatim>\<open>handleClearChat\<close> (script.js, lines 344 to 368).\<close>

definition handleClearChat :: "bool \<Rightarrow> client_state \<Rightarrow> client_state" where
  "handleClearChat answer s =
    (if length (messages s) = 0 then s
     else
       let s1 = s\<lparr>confirms := confirms s @ [ClearPrompt]\<rparr>
       in if answer then hideError (s1\<lparr>messages := []\<rparr>) else s1)"

text \<open>
  \<^verbatim>\<open>checkBackendHealth\<close> (script.js, lines 396 to 412) once its \<^verbatim>\<open>fetch\<close> has settled:
  \<open>Some ok\<close> is a response with \<^verbatim>\<open>response.ok = ok\<close>, \<open>None\<close> a \<^verbatim>\<open>fetch\<close> that threw.
\<close>

definition checkBackendHealth :: "bool option \<Rightarrow> client_state \<Rightarrow> client_state" where
  "checkBackendHealth res s =
    (case res of
       Some ok \<Rightarrow> if ok then updateConnectionStatus True s else updateConnectionStatus False s
     | None \<Rightarrow> updateConnectionStatus False s)"

text \<open>
  The events of a client session, each with what the environment supplies to its
  handler: the user edits the input field; the user clicks the send button or presses
  Enter (both run \<^verbatim>\<open>handleSendMessage\<close> only while the button is enabled); the pending
  request settles; the oldest retry timer fires; the user clicks the clear button; the
  error banner is dismissed; a health check settles; the browser goes offline.
\<close>

datatype event =
    Input jsstring
  | Send jsstring
  | Settled api_result jsstring
  | RetryTimer bool jsstring
  | Clear bool
  | Dismiss
  | Health "bool option"
  | Offline

fun step :: "event \<Rightarrow> client_state \<Rightarrow> client_state" where
  "step (Input v) s = handleInputChange (s\<lparr>messageInput := v\<rparr>)"
| "step (Send t) s = (if sendButton_disabled s then s else handleSendMessage t s)"
| "step (Settled res t) s = handleSendMessage_settled res t s"
| "step (RetryTimer answer t) s = retryCallback answer t s"
| "step (Clear answer) s = handleClearChat answer s"
| "step Dismiss s = hideError s"
| "step (Health res) s = checkBackendHealth res s"
| "step Offline s =
     showError (lit ''You are offline. Please check your internet connection.'')
       (updateConnectionStatus False s)"

fun run :: "event list \<Rightarrow> client_state \<Rightarrow> client_state" where
  "run [] s = s"
| "run (e # es) s = run es (step e s)"

text \<open>
  The state when the page has loaded: \<^verbatim>\<open>state\<close> as the script initialises it, with the
  session identifier \<open>sid\<close> it drew, no request and no timer waiting and no dialog shown
  yet. The page parts are those of the markup, which the record \<open>page\<close> supplies.
\<close>

definition initial_state :: "jsstring \<Rightarrow> client_state \<Rightarrow> client_state" where
  "initial_state sid page =
    page\<lparr>messages := [], isLoading := False, sessionId := sid, retryCount := 0,
         inFlight := None, retryTimers := [], confirms := []\<rparr>"

text \<open>
  Counting in a trace of dialogs: the retry prompts, and the retry prompts for one
  message. \<open>scheduled\<close> counts the retry prompts a state has scheduled so far: those whose
  timer still waits and those already shown. A successful response is the event of a
  request that settles with a reply.
\<close>

fun retry_prompts :: "dialog list \<Rightarrow> nat" where
  "retry_prompts [] = 0"
| "retry_prompts (RetryPrompt n m # ds) = Suc (retry_prompts ds)"
| "retry_prompts (ClearPrompt # ds) = retry_prompts ds"

fun retry_prompts_for :: "jsstring \<Rightarrow> dialog list \<Rightarrow> nat" where
  "retry_prompts_for m [] = 0"
| "retry_prompts_for m (RetryPrompt n m' # ds) =
     (if m' = m then Suc (retry_prompts_for m ds) else retry_prompts_for m ds)"
| "retry_prompts_for m (ClearPrompt # ds) = retry_prompts_for m ds"

definition scheduled :: "client_state \<Rightarrow> nat" where
  "scheduled s = length (retryTimers s) + retry_prompts (confirms s)"

fun is_success :: "event \<Rightarrow> bool" where
  "is_success (Settled (Resolved reply srcs) t) = True"
| "is_success e = False"


section \<open>The error taxonomy of the specification\<close>




section \<open>Concrete inputs\<close>

text \<open>A configured server in production mode, and the readings of one request.\<close>

definition example_server :: server where
  "example_server = \<lparr>OPENAI_API_KEY = Some (lit ''sk-test''), NODE_ENV = None, openai = True\<rparr>"

definition example_runtime :: runtime where
  "example_runtime =
    \<lparr>now = lit ''2024-01-01T00:00:00.000Z'', uptime = 12, type_error = lit ''TypeError''\<rparr>"

text \<open>A server started without a credential.\<close>

definition unconfigured_server :: server where
  "unconfigured_server = \<lparr>OPENAI_API_KEY = None, NODE_ENV = None, openai = False\<rparr>"

text \<open>Four thousand letters \<open>a\<close> followed by one space.\<close>

definition padded_message :: jsstring where
  "padded_message = replicate 4000 0x61 @ [0x20]"

text \<open>
  A freshly loaded page with an empty input field, a disabled send button and a hidden
  typing indicator and banner; the two errors \<^verbatim>\<open>sendToAPI\<close> raises by itself.
\<close>

definition example_page :: client_state where
  "example_page =
    \<lparr>messages = [], isLoading = False, sessionId = [], retryCount = 0,
     messageInput = [], sendButton_disabled = True, typingIndicator_hidden = True,
     errorDisplay_hidden = True, errorMessage_text = [],
     connectionStatus = lit ''status-dot'', statusText = lit ''Connecting...'',
     inFlight = None, retryTimers = [], confirms = []\<rparr>"

definition example_client :: client_state where
  "example_client = initial_state (lit ''session_1'') example_page"

definition timeout_error :: caught where
  "timeout_error = APIError 408 (lit ''Request timed out. Please try again.'') (Some (lit ''timeout''))"

definition network_error :: caught where
  "network_error = APIError 0 (lit ''Cannot connect to server. Please check if the backend is running.'') (Some (lit ''network''))"

text \<open>
  The user sends \<^verbatim>\<open>hi\<close> and the request times out; a health check succeeds and the user
  sends \<^verbatim>\<open>hi\<close>, the request still waiting.
\<close>

definition failed_once :: client_state where
  "failed_once =
    run [Input (lit ''hi''), Send (lit ''t1''), Settled (Threw timeout_error) (lit ''t2'')]
      example_client"

definition sending_state :: client_state where
  "sending_state = run [Health (Some True), Input (lit ''hi''), Send (lit ''t1'')] example_client"

text \<open>
  After the timed-out \<^verbatim>\<open>hi\<close>: the retry timer has fired and the user has confirmed, so
  \<^verbatim>\<open>hi\<close> is in flight again with the counter at 1; or, the timer still waiting, the user
  has sent \<^verbatim>\<open>B\<close> and got an answer. And a page whose first message \<^verbatim>\<open>B\<close> was answered.
\<close>

definition retrying_state :: client_state where
  "retrying_state =
    run [Input (lit ''hi''), Send (lit ''t1''), Settled (Threw timeout_error) (lit ''t2''),
         RetryTimer True (lit ''t3'')] example_client"

definition after_success :: client_state where
  "after_success =
    run [Input (lit ''B''), Send (lit ''t3''), Settled (Resolved (lit ''ok'') []) (lit ''t4'')]
      failed_once"

definition answered_once :: client_state where
  "answered_once =
    run [Input (lit ''B''), Send (lit ''t1''), Settled (Resolved (lit ''ok'') []) (lit ''t2'')]
      example_client"

text \<open>
  The retry chain of one message \<^verbatim>\<open>A\<close>: it times out, and each of three confirmed
  retries times out again; a fourth retry event finds no timer.
\<close>

definition retry_chain :: "event list" where
  "retry_chain =
    [Input (lit ''A''), Send (lit ''t''), Settled (Threw timeout_error) (lit ''t''),
     RetryTimer True (lit ''t''), Settled (Threw timeout_error) (lit ''t''),
     RetryTimer True (lit ''t''), Settled (Threw timeout_error) (lit ''t''),
     RetryTimer True (lit ''t''), Settled (Threw timeout_error) (lit ''t''),
     RetryTimer True (lit ''t'')]"

text \<open>
  The message \<^verbatim>\<open>A\<close> is entered once and times out. Four times over, before the retry
  timer fires the user sends \<^verbatim>\<open>B\<close>, which is answered; then the timer fires, the user
  confirms, and the resent \<^verbatim>\<open>A\<close> times out again.
\<close>

definition other_round :: "event list" where
  "other_round =
    [Input (lit ''B''), Send (lit ''t''), Settled (Resolved (lit ''ok'') []) (lit ''t''),
     RetryTimer True (lit ''t''), Settled (Threw timeout_error) (lit ''t'')]"

definition interleaved_trace :: "event list" where
  "interleaved_trace =
    [Input (lit ''A''), Send (lit ''t''), Settled (Threw timeout_error) (lit ''t'')]
      @ other_round @ other_round @ other_round @ other_round"


section \<open>Facts about strings\<close>

lemma of_char_less: "(of_char c :: nat) < 65536"
proof -
  have "(of_char c :: nat) mod 256 = of_char c" by (rule of_char_mod_256)
  moreover have "(of_char c :: nat) mod 256 < 256" by simp
  ultimately show ?thesis by linarith
qed

lemma unat_unit: "unat (of_nat (of_char c) :: 16 word) = of_char c"
  using of_char_less [of c] by (simp add: unat_of_nat take_bit_nat_eq_self)

lemma unit_inj:
  assumes h: "(of_nat (of_char c) :: 16 word) = of_nat (of_char d)"
  shows "c = d"
proof -
  have "(of_char c :: nat) = unat (of_nat (of_char c) :: 16 word)"
    by (rule unat_unit [symmetric])
  also have "\<dots> = unat (of_nat (of_char d) :: 16 word)"
    by (rule arg_cong [OF h])
  also have "\<dots> = of_char d"
    by (rule unat_unit)
  finally show "c = d" by (rule of_char_eq_iff [THEN iffD1])
qed

lemma lit_eq_iff: "lit a = lit b \<longleftrightarrow> a = b"
proof -
  have "inj (\<lambda>c. of_nat (of_char c) :: 16 word)"
    by (rule injI) (rule unit_inj)
  then show ?thesis unfolding lit_def by simp
qed

lemma lit_Nil_iff: "lit a = [] \<longleftrightarrow> a = []"
  by (simp add: lit_def)

lemma length_lit: "length (lit a) = length a"
  by (simp add: lit_def)

lemma length_trim_le: "length (trim s) \<le> length s"
proof -
  have "length (trim s) = length (dropWhile is_ws (rev (dropWhile is_ws s)))"
    unfolding trim_def by simp
  also have "\<dots> \<le> length (rev (dropWhile is_ws s))"
    by (rule length_dropWhile_le)
  also have "\<dots> = length (dropWhile is_ws s)" by simp
  also have "\<dots> \<le> length s" by (rule length_dropWhile_le)
  finally show ?thesis .
qed

lemma get_prop_Str_Obj: "get_prop b k = Str m \<Longrightarrow> b \<noteq> Undefined \<and> b \<noteq> Null"
  by (cases b) auto

lemma trim_Nil [simp]: "trim [] = []"
  by (simp add: trim_def)

lemma is_ws_space: "is_ws 0x20"
  by (simp add: is_ws_def)

lemma not_ws_a: "\<not> is_ws 0x61"
  by (simp add: is_ws_def)

lemma trim_no_ws:
  assumes "s \<noteq> []" and "\<not> is_ws (hd s)" and "\<not> is_ws (last s)"
  shows "trim s = s"
proof -
  have "dropWhile is_ws s = s" using assms by (simp add: dropWhile_eq_self_iff)
  moreover have "dropWhile is_ws (rev s) = rev s"
    using assms by (simp add: dropWhile_eq_self_iff hd_rev)
  ultimately show ?thesis by (simp add: trim_def)
qed

lemma trim_snoc_ws:
  assumes "is_ws b"
  shows "trim (s @ [b]) = trim s"
proof (cases "\<forall>c \<in> set s. is_ws c")
  case True
  have e1: "dropWhile is_ws s = []"
    using True by (simp add: dropWhile_eq_Nil_conv)
  have e2: "dropWhile is_ws (s @ [b]) = []"
    using True assms by (simp add: dropWhile_eq_Nil_conv)
  show ?thesis unfolding trim_def e1 e2 by simp
next
  case False
  then obtain c where "c \<in> set s" and "\<not> is_ws c" by blast
  then have "dropWhile is_ws (s @ [b]) = dropWhile is_ws s @ [b]"
    by (rule dropWhile_append1)
  then show ?thesis using assms by (simp add: trim_def)
qed

lemma trim_replicate:
  assumes "\<not> is_ws a"
  shows "trim (replicate n a) = replicate n a"
proof (cases n)
  case 0
  then show ?thesis by simp
next
  case (Suc k)
  have "replicate n a \<noteq> []" using Suc by simp
  moreover have "hd (replicate n a) = a" using Suc by simp
  moreover have "last (replicate n a) = a" using Suc by (simp del: replicate_Suc)
  ultimately show ?thesis using assms by (simp add: trim_no_ws)
qed

lemma trim_padded: "trim padded_message = replicate 4000 0x61"
  unfolding padded_message_def by (simp only: trim_snoc_ws [OF is_ws_space] trim_replicate [OF not_ws_a])


section \<open>Facts about the handlers\<close>


lemma falsy_stringifies: "\<not> truthy v \<Longrightarrow> stringifies v"
  by (cases v) simp_all

lemma truthy_defined: "truthy v \<Longrightarrow> v \<noteq> Undefined"
  by auto

lemma catch_handler_status: "status (catch_handler srv code msg) \<noteq> 200"
  by (simp add: catch_handler_def)

lemma chat_success_cases:
  assumes "status (chat srv rt req_body outcome) = 200"
  obtains m reply cs where "get_prop req_body ''message'' = Str m"
    and "outcome = Completed (Some reply # cs)"
    and "stringifies (get_prop req_body ''sessionId'')"
    and "chat srv rt req_body outcome =
          \<lparr>status = 200, body = json
            [(''reply'', Str reply), (''sources'', Arr []),
             (''sessionId'', if truthy (get_prop req_body ''sessionId'')
                then get_prop req_body ''sessionId'' else Str (lit ''anonymous'')),
             (''timestamp'', Str (now rt))]\<rparr>"
proof -
  have nn: "req_body \<noteq> Undefined \<and> req_body \<noteq> Null"
    using assms catch_handler_status [of srv None "type_error rt"]
    by (auto simp add: chat_def)
  obtain m where m: "get_prop req_body ''message'' = Str m"
    using assms nn by (cases "get_prop req_body ''message''") (simp_all add: chat_def Let_def)
  have v: "m \<noteq> []" "trim m \<noteq> []" "\<not> 4000 < length m" "openai srv"
    using assms nn m by (simp_all add: chat_def Let_def split: if_splits)
  let ?u = "if truthy (get_prop req_body ''sessionId'')
            then get_prop req_body ''sessionId'' else Str (lit ''anonymous'')"
  have e: "chat srv rt req_body outcome =
      (if \<not> stringifies ?u then catch_handler srv None (type_error rt)
       else (case outcome of
               Rejected code msg \<Rightarrow> catch_handler srv code msg
             | Completed [] \<Rightarrow> catch_handler srv None (type_error rt)
             | Completed (None # cs) \<Rightarrow> catch_handler srv None (type_error rt)
             | Completed (Some reply # cs) \<Rightarrow>
                 \<lparr>status = 200, body = json
                   [(''reply'', Str reply), (''sources'', Arr []), (''sessionId'', ?u),
                    (''timestamp'', Str (now rt))]\<rparr>))"
    using nn m v by (simp add: chat_def Let_def)
  have s: "stringifies ?u"
    using assms catch_handler_status unfolding e by (auto split: if_splits)
  then have s': "stringifies (get_prop req_body ''sessionId'')"
    by (simp add: falsy_stringifies split: if_splits)
  obtain reply cs where o: "outcome = Completed (Some reply # cs)"
    using assms catch_handler_status s unfolding e
    by (cases outcome) (auto split: list.splits option.splits)
  show ?thesis
    using that [OF m o s'] e s o by simp
qed

lemma chat_success_sessionId:
  assumes "status (chat srv rt req_body outcome) = 200"
  shows "get_prop (body (chat srv rt req_body outcome)) ''sessionId'' =
           wire (if truthy (get_prop req_body ''sessionId'') then get_prop req_body ''sessionId''
                 else Str (lit ''anonymous''))"
proof -
  obtain m reply cs where e: "chat srv rt req_body outcome =
          \<lparr>status = 200, body = json
            [(''reply'', Str reply), (''sources'', Arr []),
             (''sessionId'', if truthy (get_prop req_body ''sessionId'')
                then get_prop req_body ''sessionId'' else Str (lit ''anonymous'')),
             (''timestamp'', Str (now rt))]\<rparr>"
    using assms by (rule chat_success_cases)
  show ?thesis
    unfolding e using truthy_defined [of "get_prop req_body ''sessionId''"]
    by (simp add: json_def lit_eq_iff)
qed

lemma example_success:
  assumes "stringifies (get_prop (Obj ((lit ''message'', Str (lit ''hello'')) # kvs)) ''sessionId'')"
  shows "status (chat example_server example_runtime (Obj ((lit ''message'', Str (lit ''hello'')) # kvs))
      (Completed [Some (lit ''ok'')])) = 200"
proof -
  have "trim (lit ''hello'') \<noteq> []" by (simp add: trim_def is_ws_def lit_def)
  then show ?thesis
    using assms
    by (simp add: chat_def Let_def lit_Nil_iff length_lit example_server_def)
qed


section \<open>Facts about the client\<close>

lemma retry_prompts_append: "retry_prompts (ds @ es) = retry_prompts ds + retry_prompts es"
  by (induction ds rule: retry_prompts.induct) simp_all

lemma retry_prompts_for_le: "retry_prompts_for m ds \<le> retry_prompts ds"
  by (induction ds rule: retry_prompts.induct) simp_all

lemma handleInputChange_frame:
  "messages (handleInputChange s) = messages s"
  "isLoading (handleInputChange s) = isLoading s"
  "retryCount (handleInputChange s) = retryCount s"
  "retryTimers (handleInputChange s) = retryTimers s"
  "confirms (handleInputChange s) = confirms s"
  "inFlight (handleInputChange s) = inFlight s"
  "connectionStatus (handleInputChange s) = connectionStatus s"
  "statusText (handleInputChange s) = statusText s"
  "messageInput (handleInputChange s) = messageInput s"
  by (simp_all add: handleInputChange_def Let_def)

lemma handleSendMessage_frame:
  "retryCount (handleSendMessage t s) = retryCount s"
  "retryTimers (handleSendMessage t s) = retryTimers s"
  "confirms (handleSendMessage t s) = confirms s"
  "connectionStatus (handleSendMessage t s) = connectionStatus s"
  "statusText (handleSendMessage t s) = statusText s"
  by (simp_all add: handleSendMessage_def Let_def handleInputChange_def addMessage_def
      showTypingIndicator_def hideError_def)

lemma handleAPIError_retry:
  "confirms (handleAPIError err m t s) = confirms s
   \<and> (retryCount (handleAPIError err m t s) = retryCount s
        \<and> retryTimers (handleAPIError err m t s) = retryTimers s
      \<or> retryCount s < RETRY_ATTEMPTS
        \<and> retryCount (handleAPIError err m t s) = retryCount s + 1
        \<and> retryTimers (handleAPIError err m t s) = retryTimers s @ [m])"
  by (simp add: handleAPIError_def Let_def addMessage_def showError_def updateConnectionStatus_def
      split: caught.splits)

lemma settled_retry:
  "confirms (handleSendMessage_settled res t s) = confirms s
   \<and> (retryCount (handleSendMessage_settled res t s) = retryCount s
        \<and> retryTimers (handleSendMessage_settled res t s) = retryTimers s
      \<or> retryCount s < RETRY_ATTEMPTS
        \<and> retryCount (handleSendMessage_settled res t s) = retryCount s + 1
        \<and> length (retryTimers (handleSendMessage_settled res t s)) = length (retryTimers s) + 1
      \<or> is_success (Settled res t)
        \<and> retryCount (handleSendMessage_settled res t s) = 0
        \<and> retryTimers (handleSendMessage_settled res t s) = retryTimers s)"
proof (cases "inFlight s")
  case None
  then show ?thesis by (simp add: handleSendMessage_settled_def)
next
  case (Some m)
  show ?thesis
  proof (cases res)
    case (Resolved reply srcs)
    then show ?thesis using Some
      by (simp add: handleSendMessage_settled_def Let_def handleInputChange_frame
          addMessage_def hideTypingIndicator_def)
  next
    case (Threw err)
    have e: "handleSendMessage_settled res t s =
        handleInputChange ((handleAPIError err m t (hideTypingIndicator s))
          \<lparr>isLoading := False, inFlight := None\<rparr>)"
      using Some Threw by (simp add: handleSendMessage_settled_def)
    have h: "retryCount (hideTypingIndicator s) = retryCount s"
        "retryTimers (hideTypingIndicator s) = retryTimers s"
        "confirms (hideTypingIndicator s) = confirms s"
      by (simp_all add: hideTypingIndicator_def)
    show ?thesis
      using handleAPIError_retry [of err m t "hideTypingIndicator s"] Threw
      unfolding e h by (auto simp add: handleInputChange_frame)
  qed
qed

lemma retryCallback_retry:
  "retryCount (retryCallback answer t s) = retryCount s
   \<and> scheduled (retryCallback answer t s) = scheduled s"
  by (cases "retryTimers s")
     (simp_all add: retryCallback_def scheduled_def Let_def handleSendMessage_frame
        handleInputChange_frame retry_prompts_append)

lemma handleClearChat_retry:
  "retryCount (handleClearChat answer s) = retryCount s
   \<and> scheduled (handleClearChat answer s) = scheduled s"
  by (simp add: handleClearChat_def scheduled_def Let_def hideError_def retry_prompts_append)

lemma step_retryCount:
  assumes "retryCount s \<le> RETRY_ATTEMPTS"
  shows "retryCount (step e s) \<le> RETRY_ATTEMPTS"
proof (cases e)
  case (Settled res t)
  then show ?thesis using assms settled_retry [of res t s] by auto
qed (use assms in \<open>simp_all add: handleInputChange_frame handleSendMessage_frame
      retryCallback_retry handleClearChat_retry hideError_def checkBackendHealth_def
      updateConnectionStatus_def showError_def split: option.splits\<close>)

lemma run_retryCount:
  "retryCount s \<le> RETRY_ATTEMPTS \<Longrightarrow> retryCount (run evs s) \<le> RETRY_ATTEMPTS"
  by (induction evs arbitrary: s) (simp_all add: step_retryCount)

lemma step_scheduled:
  assumes "\<not> is_success e"
  shows "scheduled (step e s) + retryCount s = scheduled s + retryCount (step e s)"
proof (cases e)
  case (Settled res t)
  then show ?thesis using assms settled_retry [of res t s] by (auto simp add: scheduled_def)
qed (simp_all add: handleInputChange_frame handleSendMessage_frame scheduled_def
      retryCallback_retry [unfolded scheduled_def] handleClearChat_retry [unfolded scheduled_def]
      hideError_def checkBackendHealth_def
      updateConnectionStatus_def showError_def split: option.splits)

lemma run_scheduled:
  "list_all (\<lambda>e. \<not> is_success e) evs \<Longrightarrow>
   scheduled (run evs s) + retryCount s = scheduled s + retryCount (run evs s)"
proof (induction evs arbitrary: s)
  case Nil
  then show ?case by simp
next
  case (Cons e evs)
  then have "scheduled (run evs (step e s)) + retryCount (step e s)
      = scheduled (step e s) + retryCount (run evs (step e s))"
    by simp
  moreover have "scheduled (step e s) + retryCount s = scheduled s + retryCount (step e s)"
    using Cons.prems by (simp add: step_scheduled)
  ultimately show ?case by simp
qed

lemma run_initial_scheduled:
  assumes "list_all (\<lambda>e. \<not> is_success e) evs"
  shows "scheduled (run evs (initial_state sid page)) \<le> RETRY_ATTEMPTS"
proof -
  have "scheduled (run evs (initial_state sid page)) + retryCount (initial_state sid page)
      = scheduled (initial_state sid page) + retryCount (run evs (initial_state sid page))"
    using assms by (rule run_scheduled)
  moreover have "retryCount (initial_state sid page) = 0" "scheduled (initial_state sid page) = 0"
    by (simp_all add: initial_state_def scheduled_def)
  moreover have "retryCount (run evs (initial_state sid page)) \<le> RETRY_ATTEMPTS"
    by (rule run_retryCount) (simp add: initial_state_def)
  ultimately show ?thesis by simp
qed

lemma handleSendMessage_settled_connection:
  assumes "\<forall>st msg. res \<noteq> Threw (APIError st msg (Some (lit ''network'')))"
  shows "connectionStatus (handleSendMessage_settled res t s) = connectionStatus s
       \<and> statusText (handleSendMessage_settled res t s) = statusText s"
proof (cases "inFlight s")
  case None
  then show ?thesis by (simp add: handleSendMessage_settled_def)
next
  case (Some m)
  show ?thesis
  proof (cases res)
    case (Resolved reply srcs)
    then show ?thesis using Some
      by (simp add: handleSendMessage_settled_def Let_def handleInputChange_frame
          addMessage_def hideTypingIndicator_def)
  next
    case (Threw err)
    show ?thesis
    proof (cases err)
      case (APIError st msg code)
      then have "code \<noteq> Some (lit ''network'')" using assms Threw by auto
      then show ?thesis using Some Threw APIError
        by (simp add: handleSendMessage_settled_def Let_def handleInputChange_frame
            handleAPIError_def addMessage_def showError_def hideTypingIndicator_def)
    next
      case OtherError
      then show ?thesis using Some Threw
        by (simp add: handleSendMessage_settled_def Let_def handleInputChange_frame
            handleAPIError_def addMessage_def showError_def hideTypingIndicator_def)
    qed
  qed
qed

lemma run_append: "run (es @ fs) s = run fs (run es s)"
  by (induction es arbitrary: s) simp_all

lemma trim_lit_A: "trim (lit ''A'') = lit ''A''"
  by (simp add: trim_def lit_def is_ws_def)

lemma trim_lit_B: "trim (lit ''B'') = lit ''B''"
  by (simp add: trim_def lit_def is_ws_def)

lemma trim_lit_hi: "trim (lit ''hi'') = lit ''hi''"
  by (simp add: trim_def lit_def is_ws_def)

text \<open>The definitions of the handlers and of the concrete inputs, for evaluating a trace.\<close>

lemmas client_defs =
  handleInputChange_def addMessage_def showTypingIndicator_def hideTypingIndicator_def
  showError_def hideError_def updateConnectionStatus_def handleSendMessage_def
  handleAPIError_def handleSendMessage_settled_def retryCallback_def handleClearChat_def
  checkBackendHealth_def Let_def MAX_MESSAGE_LENGTH_def RETRY_ATTEMPTS_def
  lit_eq_iff lit_Nil_iff length_lit

lemmas example_defs =
  failed_once_def sending_state_def example_client_def example_page_def initial_state_def
  timeout_error_def network_error_def trim_lit_hi

lemma failed_once_facts:
  "messages failed_once \<noteq> []" "retryCount failed_once \<le> RETRY_ATTEMPTS"
  "retryTimers failed_once \<noteq> []"
  by (simp_all add: example_defs client_defs)

lemma sending_state_inFlight: "inFlight sending_state \<noteq> None"
  by (simp add: example_defs client_defs)

lemma retry_chain_no_success: "list_all (\<lambda>e. \<not> is_success e) retry_chain"
  by (simp add: retry_chain_def timeout_error_def)

lemma first_failure:
  "retryTimers (run [Input (lit ''A''), Send (lit ''t''), Settled (Threw timeout_error) (lit ''t'')]
      example_client) = [lit ''A'']
   \<and> inFlight (run [Input (lit ''A''), Send (lit ''t''), Settled (Threw timeout_error) (lit ''t'')]
      example_client) = None
   \<and> \<not> isLoading (run [Input (lit ''A''), Send (lit ''t''), Settled (Threw timeout_error) (lit ''t'')]
      example_client)
   \<and> confirms (run [Input (lit ''A''), Send (lit ''t''), Settled (Threw timeout_error) (lit ''t'')]
      example_client) = []"
  by (simp add: example_client_def example_page_def initial_state_def timeout_error_def
      client_defs trim_lit_A)

lemma other_round_effect:
  assumes "retryTimers s = [lit ''A'']" and "inFlight s = None" and "\<not> isLoading s"
  shows "retryTimers (run other_round s) = [lit ''A'']
       \<and> inFlight (run other_round s) = None
       \<and> \<not> isLoading (run other_round s)
       \<and> confirms (run other_round s) = confirms s @ [RetryPrompt 0 (lit ''A'')]"
  using assms
  by (simp add: other_round_def timeout_error_def client_defs trim_lit_A trim_lit_B)


lemma retrying_state_facts:
  "retryCount retrying_state = 1" "inFlight retrying_state \<noteq> None"
  "retryTimers retrying_state = []"
  by (simp_all add: retrying_state_def example_defs client_defs)

lemma after_success_facts:
  "retryCount after_success = 0" "retryTimers after_success = [lit ''hi'']"
  "scheduled after_success = 1"
  by (simp_all add: after_success_def example_defs client_defs trim_lit_B scheduled_def)

lemma answered_once_facts:
  "retryCount answered_once \<le> RETRY_ATTEMPTS" "retryTimers answered_once = []"
  by (simp_all add: answered_once_def example_defs client_defs trim_lit_B)

lemma success_keeps_prompts:
  "retryTimers (handleSendMessage_settled (Resolved reply srcs) t s) = retryTimers s
   \<and> confirms (handleSendMessage_settled (Resolved reply srcs) t s) = confirms s"
  using settled_retry [of "Resolved reply srcs" t s]
  by (cases "inFlight s")
     (simp_all add: handleSendMessage_settled_def Let_def handleInputChange_frame
        addMessage_def hideTypingIndicator_def)

lemma step_confirms: "\<exists>ds. confirms (step e s) = confirms s @ ds"
proof (cases e)
  case (Settled res t)
  then show ?thesis using settled_retry [of res t s] by simp
next
  case (RetryTimer answer t)
  then show ?thesis
    by (cases "retryTimers s")
       (simp_all add: retryCallback_def Let_def handleSendMessage_frame handleInputChange_frame)
next
  case (Clear answer)
  then show ?thesis by (simp add: handleClearChat_def Let_def hideError_def)
qed (simp_all add: handleInputChange_frame handleSendMessage_frame hideError_def
      checkBackendHealth_def updateConnectionStatus_def showError_def split: option.splits)

lemma run_confirms: "\<exists>ds. confirms (run evs s) = confirms s @ ds"
proof (induction evs arbitrary: s)
  case Nil
  then show ?case by simp
next
  case (Cons e evs)
  obtain ds where a: "confirms (step e s) = confirms s @ ds" using step_confirms by blast
  obtain es where b: "confirms (run evs (step e s)) = confirms (step e s) @ es"
    using Cons.IH by blast
  show ?case using a b by simp
qed

lemma step_scheduled_mono: "scheduled s \<le> scheduled (step e s)"
proof (cases e)
  case (Settled res t)
  then show ?thesis using settled_retry [of res t s] by (auto simp add: scheduled_def)
qed (simp_all add: handleInputChange_frame handleSendMessage_frame scheduled_def
      retryCallback_retry [unfolded scheduled_def] handleClearChat_retry [unfolded scheduled_def]
      hideError_def checkBackendHealth_def
      updateConnectionStatus_def showError_def split: option.splits)

lemma run_scheduled_mono: "scheduled s \<le> scheduled (run evs s)"
proof (induction evs arbitrary: s)
  case Nil
  then show ?case by simp
next
  case (Cons e evs)
  have "scheduled s \<le> scheduled (step e s)" by (rule step_scheduled_mono)
  also have "\<dots> \<le> scheduled (run evs (step e s))" by (rule Cons.IH)
  finally show ?case by simp
qed

lemma run_segment_bound:
  assumes "list_all (\<lambda>e. \<not> is_success e) evs" and "retryCount s \<le> RETRY_ATTEMPTS"
  shows "scheduled (run evs s) + retryCount s \<le> scheduled s + RETRY_ATTEMPTS"
proof -
  have "scheduled (run evs s) + retryCount s = scheduled s + retryCount (run evs s)"
    using assms(1) by (rule run_scheduled)
  moreover have "retryCount (run evs s) \<le> RETRY_ATTEMPTS"
    using assms(2) by (rule run_retryCount)
  ultimately show ?thesis by simp
qed

lemma run_segment_message:
  assumes "list_all (\<lambda>e. \<not> is_success e) evs" and "retryCount s \<le> RETRY_ATTEMPTS"
    and "retryTimers s = []"
  shows "retry_prompts_for m (drop (length (confirms s)) (confirms (run evs s))) \<le> RETRY_ATTEMPTS"
proof -
  obtain ds where d: "confirms (run evs s) = confirms s @ ds" using run_confirms by blast
  have "scheduled (run evs s) + retryCount s \<le> scheduled s + RETRY_ATTEMPTS"
    using assms(1,2) by (rule run_segment_bound)
  then have "retry_prompts ds \<le> RETRY_ATTEMPTS"
    using assms(3) d by (simp add: scheduled_def retry_prompts_append)
  moreover have "retry_prompts_for m ds \<le> retry_prompts ds" by (rule retry_prompts_for_le)
  ultimately show ?thesis using d by simp
qed


section \<open>Claims about the relay server\<close>

text \<open>
  C1, as the specification states it: a request whose trimmed message has exactly 4000
  code units is not rejected by the length check. The handler compares the length of the
  message as sent, so four thousand letters followed by one space are rejected.
\<close>

theorem chat_padded_counterexample:
  "length (trim padded_message) = 4000
   \<and> chat example_server example_runtime (Obj [(lit ''message'', Str padded_message)])
        (Completed [Some (lit ''ok'')]) =
       \<lparr>status = 400, body = json
         [(''error'', Str (lit ''Message too long. Please limit to 4000 characters.''))]\<rparr>"
proof -
  have l: "length padded_message = 4001" by (simp add: padded_message_def)
  have n: "padded_message \<noteq> []" by (simp add: padded_message_def)
  have t: "length (trim padded_message) = 4000" by (simp add: trim_padded)
  show ?thesis using l n t
    by (simp add: chat_def)
qed

text \<open>
  C1, amended: a message whose trimmed length exceeds 4000 is rejected with status 400 and
  the message-too-long text, and so is every non-blank message whose length as sent
  exceeds 4000; a non-blank message whose length as sent is at most 4000 passes the length
  check and is answered with status 200 and the downstream's text, when the server is
  configured, the sessionId can be converted to a string for the log line (as every
  string, number and absent sessionId can) and the downstream call returns a text.
\<close>

theorem chat_length_check:
  assumes "get_prop req_body ''message'' = Str m"
  shows "(4000 < length (trim m) \<longrightarrow>
            chat srv rt req_body outcome =
              \<lparr>status = 400, body = json
                [(''error'', Str (lit ''Message too long. Please limit to 4000 characters.''))]\<rparr>)
       \<and> (trim m \<noteq> [] \<and> 4000 < length m \<longrightarrow>
            chat srv rt req_body outcome =
              \<lparr>status = 400, body = json
                [(''error'', Str (lit ''Message too long. Please limit to 4000 characters.''))]\<rparr>)
       \<and> (trim m \<noteq> [] \<and> length m \<le> 4000 \<and> openai srv
            \<and> stringifies (get_prop req_body ''sessionId'')
            \<and> outcome = Completed (Some reply # cs) \<longrightarrow>
            status (chat srv rt req_body outcome) = 200
            \<and> get_prop (body (chat srv rt req_body outcome)) ''reply'' = Str reply)"
proof -
  note nn = get_prop_Str_Obj [OF assms]
  have le: "length (trim m) \<le> length m" by (rule length_trim_le)
  have a: "trim m \<noteq> [] \<Longrightarrow> m \<noteq> []" by auto
  have 1: "4000 < length (trim m) \<Longrightarrow> trim m \<noteq> [] \<and> 4000 < length m"
    using le by auto
  have 2: "trim m \<noteq> [] \<Longrightarrow> 4000 < length m \<Longrightarrow>
            chat srv rt req_body outcome =
              \<lparr>status = 400, body = json
                [(''error'', Str (lit ''Message too long. Please limit to 4000 characters.''))]\<rparr>"
    using assms nn a by (simp add: chat_def)
  have 3: "trim m \<noteq> [] \<Longrightarrow> length m \<le> 4000 \<Longrightarrow> openai srv \<Longrightarrow>
            stringifies (get_prop req_body ''sessionId'') \<Longrightarrow> outcome = Completed (Some reply # cs) \<Longrightarrow>
            status (chat srv rt req_body outcome) = 200
            \<and> get_prop (body (chat srv rt req_body outcome)) ''reply'' = Str reply"
    using assms nn a by (simp add: chat_def json_def lit_eq_iff Let_def)
  show ?thesis using 1 2 3 by blast
qed

theorem chat_length_check_witness:
  "4000 < length (trim (replicate 4001 (0x61 :: 16 word)))
   \<and> trim (replicate 4001 (0x61 :: 16 word)) \<noteq> []
   \<and> 4000 < length (replicate 4001 (0x61 :: 16 word))
   \<and> chat example_server example_runtime (Obj [(lit ''message'', Str (replicate 4001 0x61))])
         (Completed [Some (lit ''ok'')]) =
       \<lparr>status = 400, body = json
         [(''error'', Str (lit ''Message too long. Please limit to 4000 characters.''))]\<rparr>
   \<and> trim (replicate 4000 (0x61 :: 16 word)) \<noteq> []
   \<and> length (replicate 4000 (0x61 :: 16 word)) \<le> 4000
   \<and> openai example_server
   \<and> stringifies (get_prop (Obj [(lit ''message'', Str (replicate 4000 0x61))]) ''sessionId'')
   \<and> status (chat example_server example_runtime (Obj [(lit ''message'', Str (replicate 4000 0x61))])
         (Completed [Some (lit ''ok'')])) = 200
   \<and> get_prop (body (chat example_server example_runtime
         (Obj [(lit ''message'', Str (replicate 4000 0x61))]) (Completed [Some (lit ''ok'')])))
         ''reply'' = Str (lit ''ok'')"
proof -
  have g: "\<And>m. get_prop (Obj [(lit ''message'', Str m)]) ''message'' = Str m" by simp
  have h1: "4000 < length (trim (replicate 4001 (0x61 :: 16 word)))"
    by (simp add: trim_replicate [OF not_ws_a])
  have h2: "trim (replicate 4000 (0x61 :: 16 word)) \<noteq> []"
    by (simp add: trim_replicate [OF not_ws_a])
  have h3: "length (replicate 4000 (0x61 :: 16 word)) \<le> 4000" by simp
  have h4: "openai example_server" by (simp add: example_server_def)
  have h5: "trim (replicate 4001 (0x61 :: 16 word)) \<noteq> []
      \<and> 4000 < length (replicate 4001 (0x61 :: 16 word))"
    by (simp add: trim_replicate [OF not_ws_a])
  have h6: "stringifies (get_prop (Obj [(lit ''message'', Str (replicate 4000 0x61))]) ''sessionId'')"
    by (simp add: lit_eq_iff)
  show ?thesis
    using h1 h2 h3 h4 h5 h6
      chat_length_check [OF g, of "replicate 4001 0x61" example_server example_runtime
        "Completed [Some (lit ''ok'')]" "lit ''ok''" "[]"]
      chat_length_check [OF g, of "replicate 4000 0x61" example_server example_runtime
        "Completed [Some (lit ''ok'')]" "lit ''ok''" "[]"]
    by blast
qed




text \<open>
  C5, as the specification states it: the health response has a boolean field named
  \<^verbatim>\<open>configured\<close>. The handler names the field \<^verbatim>\<open>openai_configured\<close>; a field
  \<^verbatim>\<open>configured\<close> does not exist.
\<close>

theorem health_configured_counterexample:
  "get_prop (body (health unconfigured_server example_runtime)) ''configured'' = Undefined
   \<and> get_prop (body (health unconfigured_server example_runtime)) ''openai_configured''
       = Bool False"
  by (simp add: health_def json_def lit_eq_iff unconfigured_server_def)

text \<open>
  C5, amended: for every configuration the health handler answers with status 200 (it
  has no failing branch), and its body holds the status \<^verbatim>\<open>healthy\<close>, the timestamp, the
  uptime, the environment (\<^verbatim>\<open>development\<close> when \<^verbatim>\<open>NODE_ENV\<close> is unset or empty), the version
  \<^verbatim>\<open>1.0.0\<close> and a boolean field named \<^verbatim>\<open>openai_configured\<close>, which is false exactly
  when the credential is absent or empty; it holds no field named \<^verbatim>\<open>configured\<close>.
\<close>

theorem health_response:
  "status (health srv rt) = 200
   \<and> get_prop (body (health srv rt)) ''status'' = Str (lit ''healthy'')
   \<and> get_prop (body (health srv rt)) ''timestamp'' = Str (now rt)
   \<and> get_prop (body (health srv rt)) ''uptime'' = Num (uptime rt)
   \<and> get_prop (body (health srv rt)) ''environment'' =
       Str (case NODE_ENV srv of
              None \<Rightarrow> lit ''development''
            | Some e \<Rightarrow> if e = [] then lit ''development'' else e)
   \<and> get_prop (body (health srv rt)) ''version'' = Str (lit ''1.0.0'')
   \<and> get_prop (body (health srv rt)) ''openai_configured'' =
       Bool (OPENAI_API_KEY srv \<noteq> None \<and> OPENAI_API_KEY srv \<noteq> Some [])
   \<and> get_prop (body (health srv rt)) ''configured'' = Undefined"
  by (simp add: health_def json_def lit_eq_iff split: option.splits)

text \<open>
  C6, as the specification states it: on success the response echoes the request's
  sessionId whenever one was provided. A request that provides the empty string as its
  sessionId succeeds and is not answered with the empty string.
\<close>

theorem chat_sessionId_echo_counterexample:
  "status (chat example_server example_runtime
      (Obj [(lit ''message'', Str (lit ''hello'')), (lit ''sessionId'', Str [])])
      (Completed [Some (lit ''ok'')])) = 200
   \<and> get_prop (Obj [(lit ''message'', Str (lit ''hello'')), (lit ''sessionId'', Str [])]) ''sessionId''
       = Str []
   \<and> get_prop (body (chat example_server example_runtime
      (Obj [(lit ''message'', Str (lit ''hello'')), (lit ''sessionId'', Str [])])
      (Completed [Some (lit ''ok'')]))) ''sessionId'' \<noteq> Str []"
  by (simp add: chat_def json_def lit_eq_iff lit_Nil_iff example_server_def trim_def is_ws_def lit_def)

text \<open>
  C6, amended: for every chat request that succeeds, the response's sessionId equals the
  request's sessionId when that is a string other than the empty string, and equals the
  literal \<^verbatim>\<open>anonymous\<close> when the request carried no sessionId. For a sessionId of any
  kind, the response holds what \<^verbatim>\<open>JSON.stringify\<close> writes for the request's sessionId when
  that is truthy (\<^verbatim>\<open>null\<close> for the number \<^verbatim>\<open>Infinity\<close>) and \<^verbatim>\<open>anonymous\<close> otherwise.
\<close>

theorem chat_sessionId_echo:
  assumes "status (chat srv rt req_body outcome) = 200"
  shows "(get_prop req_body ''sessionId'' = Str sid \<and> sid \<noteq> [] \<longrightarrow>
            get_prop (body (chat srv rt req_body outcome)) ''sessionId'' = Str sid)
       \<and> (get_prop req_body ''sessionId'' = Undefined \<longrightarrow>
            get_prop (body (chat srv rt req_body outcome)) ''sessionId'' = Str (lit ''anonymous''))
       \<and> get_prop (body (chat srv rt req_body outcome)) ''sessionId'' =
            wire (if truthy (get_prop req_body ''sessionId'') then get_prop req_body ''sessionId''
                  else Str (lit ''anonymous''))"
  using chat_success_sessionId [OF assms] by simp

theorem chat_sessionId_echo_witness:
  "status (chat example_server example_runtime
      (Obj [(lit ''message'', Str (lit ''hello'')), (lit ''sessionId'', Str (lit ''s1''))])
      (Completed [Some (lit ''ok'')])) = 200
   \<and> get_prop (Obj [(lit ''message'', Str (lit ''hello'')), (lit ''sessionId'', Str (lit ''s1''))])
      ''sessionId'' = Str (lit ''s1'')
   \<and> lit ''s1'' \<noteq> []
   \<and> get_prop (Obj [(lit ''message'', Str (lit ''hello''))]) ''sessionId'' = Undefined
   \<and> get_prop (body (chat example_server example_runtime
      (Obj [(lit ''message'', Str (lit ''hello'')), (lit ''sessionId'', Str (lit ''s1''))])
      (Completed [Some (lit ''ok'')]))) ''sessionId'' = Str (lit ''s1'')
   \<and> status (chat example_server example_runtime
      (Obj [(lit ''message'', Str (lit ''hello''))]) (Completed [Some (lit ''ok'')])) = 200
   \<and> get_prop (body (chat example_server example_runtime
      (Obj [(lit ''message'', Str (lit ''hello''))]) (Completed [Some (lit ''ok'')]))) ''sessionId''
       = Str (lit ''anonymous'')
   \<and> status (chat example_server example_runtime
      (Obj [(lit ''message'', Str (lit ''hello'')), (lit ''sessionId'', Infinite True)])
      (Completed [Some (lit ''ok'')])) = 200
   \<and> get_prop (body (chat example_server example_runtime
      (Obj [(lit ''message'', Str (lit ''hello'')), (lit ''sessionId'', Infinite True)])
      (Completed [Some (lit ''ok'')]))) ''sessionId'' = Null"
proof -
  have g1: "get_prop (Obj [(lit ''message'', Str (lit ''hello'')), (lit ''sessionId'', Str (lit ''s1''))])
      ''sessionId'' = Str (lit ''s1'') \<and> lit ''s1'' \<noteq> []"
    by (simp add: lit_eq_iff lit_Nil_iff)
  have g2: "get_prop (Obj [(lit ''message'', Str (lit ''hello''))]) ''sessionId'' = Undefined"
    by (simp add: lit_eq_iff)
  have g3: "get_prop (Obj [(lit ''message'', Str (lit ''hello'')), (lit ''sessionId'', Infinite True)])
      ''sessionId'' = Infinite True"
    by (simp add: lit_eq_iff)
  have s1: "status (chat example_server example_runtime
      (Obj [(lit ''message'', Str (lit ''hello'')), (lit ''sessionId'', Str (lit ''s1''))])
      (Completed [Some (lit ''ok'')])) = 200"
    by (rule example_success) (simp add: lit_eq_iff)
  have s2: "status (chat example_server example_runtime
      (Obj [(lit ''message'', Str (lit ''hello''))]) (Completed [Some (lit ''ok'')])) = 200"
    by (rule example_success) (simp add: lit_eq_iff)
  have s3: "status (chat example_server example_runtime
      (Obj [(lit ''message'', Str (lit ''hello'')), (lit ''sessionId'', Infinite True)])
      (Completed [Some (lit ''ok'')])) = 200"
    by (rule example_success) (simp add: lit_eq_iff)
  have a: "get_prop (body (chat example_server example_runtime
      (Obj [(lit ''message'', Str (lit ''hello'')), (lit ''sessionId'', Str (lit ''s1''))])
      (Completed [Some (lit ''ok'')]))) ''sessionId'' = Str (lit ''s1'')"
    using g1 chat_sessionId_echo [OF s1, where sid = "lit ''s1''"] by blast
  have b: "get_prop (body (chat example_server example_runtime
      (Obj [(lit ''message'', Str (lit ''hello''))]) (Completed [Some (lit ''ok'')]))) ''sessionId''
       = Str (lit ''anonymous'')"
    using g2 chat_sessionId_echo [OF s2] by blast
  have c: "get_prop (body (chat example_server example_runtime
      (Obj [(lit ''message'', Str (lit ''hello'')), (lit ''sessionId'', Infinite True)])
      (Completed [Some (lit ''ok'')]))) ''sessionId'' = Null"
    using chat_sessionId_echo [OF s3] unfolding g3 by simp
  show ?thesis using g1 g2 s1 s2 s3 a b c by blast
qed

text \<open>
  C10: a request whose sessionId is present but the empty string is treated as one
  without a sessionId: on success the response's sessionId is the literal \<^verbatim>\<open>anonymous\<close>,
  and the whole response equals that of any request with the same message and no
  sessionId.
\<close>

theorem chat_empty_sessionId:
  assumes "get_prop req_body ''sessionId'' = Str []"
  shows "(status (chat srv rt req_body outcome) = 200 \<longrightarrow>
            get_prop (body (chat srv rt req_body outcome)) ''sessionId'' = Str (lit ''anonymous''))
       \<and> (other \<noteq> Undefined \<and> other \<noteq> Null
            \<and> get_prop other ''sessionId'' = Undefined
            \<and> get_prop other ''message'' = get_prop req_body ''message'' \<longrightarrow>
            chat srv rt req_body outcome = chat srv rt other outcome)"
proof -
  have n: "req_body \<noteq> Undefined \<and> req_body \<noteq> Null"
    using assms by (rule get_prop_Str_Obj)
  have 1: "status (chat srv rt req_body outcome) = 200 \<Longrightarrow>
            get_prop (body (chat srv rt req_body outcome)) ''sessionId'' = Str (lit ''anonymous'')"
    using chat_success_sessionId [of srv rt req_body outcome] assms by simp
  have 2: "other \<noteq> Undefined \<Longrightarrow> other \<noteq> Null \<Longrightarrow>
            get_prop other ''sessionId'' = Undefined \<Longrightarrow>
            get_prop other ''message'' = get_prop req_body ''message'' \<Longrightarrow>
            chat srv rt req_body outcome = chat srv rt other outcome"
    using n assms by (simp add: chat_def Let_def)
  show ?thesis using 1 2 by blast
qed

theorem chat_empty_sessionId_witness:
  "get_prop (Obj [(lit ''message'', Str (lit ''hello'')), (lit ''sessionId'', Str [])]) ''sessionId''
     = Str []
   \<and> status (chat example_server example_runtime
      (Obj [(lit ''message'', Str (lit ''hello'')), (lit ''sessionId'', Str [])])
      (Completed [Some (lit ''ok'')])) = 200
   \<and> get_prop (body (chat example_server example_runtime
      (Obj [(lit ''message'', Str (lit ''hello'')), (lit ''sessionId'', Str [])])
      (Completed [Some (lit ''ok'')]))) ''sessionId'' = Str (lit ''anonymous'')
   \<and> chat example_server example_runtime
      (Obj [(lit ''message'', Str (lit ''hello'')), (lit ''sessionId'', Str [])])
      (Completed [Some (lit ''ok'')])
     = chat example_server example_runtime (Obj [(lit ''message'', Str (lit ''hello''))])
      (Completed [Some (lit ''ok'')])"
proof -
  have g: "get_prop (Obj [(lit ''message'', Str (lit ''hello'')), (lit ''sessionId'', Str [])])
      ''sessionId'' = Str []"
    by (simp add: lit_eq_iff)
  have o: "Obj [(lit ''message'', Str (lit ''hello''))] \<noteq> Undefined
      \<and> Obj [(lit ''message'', Str (lit ''hello''))] \<noteq> Null
      \<and> get_prop (Obj [(lit ''message'', Str (lit ''hello''))]) ''sessionId'' = Undefined
      \<and> get_prop (Obj [(lit ''message'', Str (lit ''hello''))]) ''message'' =
          get_prop (Obj [(lit ''message'', Str (lit ''hello'')), (lit ''sessionId'', Str [])]) ''message''"
    by (simp add: lit_eq_iff)
  note T = chat_empty_sessionId [OF g, where srv = example_server and rt = example_runtime
        and outcome = "Completed [Some (lit ''ok'')]"
        and other = "Obj [(lit ''message'', Str (lit ''hello''))]"]
  have s: "status (chat example_server example_runtime
      (Obj [(lit ''message'', Str (lit ''hello'')), (lit ''sessionId'', Str [])])
      (Completed [Some (lit ''ok'')])) = 200"
    by (rule example_success) (simp add: lit_eq_iff)
  have a: "get_prop (body (chat example_server example_runtime
      (Obj [(lit ''message'', Str (lit ''hello'')), (lit ''sessionId'', Str [])])
      (Completed [Some (lit ''ok'')]))) ''sessionId'' = Str (lit ''anonymous'')"
    using T s by blast
  have b: "chat example_server example_runtime
      (Obj [(lit ''message'', Str (lit ''hello'')), (lit ''sessionId'', Str [])])
      (Completed [Some (lit ''ok'')])
     = chat example_server example_runtime (Obj [(lit ''message'', Str (lit ''hello''))])
      (Completed [Some (lit ''ok'')])"
    using T o by blast
  show ?thesis using g s a b by blast
qed

text \<open>
  C7: every request whose message is a string that trims to the empty string is answered
  with status 400 and the text \<^verbatim>\<open>Message is required and must be a non-empty string\<close>,
  whatever the padding, the server's configuration and the downstream outcome.
\<close>

theorem chat_blank_message:
  assumes "get_prop req_body ''message'' = Str m" and "trim m = []"
  shows "chat srv rt req_body outcome =
    \<lparr>status = 400, body = json
       [(''error'', Str (lit ''Message is required and must be a non-empty string''))]\<rparr>"
  using assms get_prop_Str_Obj [OF assms(1)] by (simp add: chat_def)

theorem chat_blank_message_witness:
  "get_prop (Obj [(lit ''message'', Str [])]) ''message'' = Str []
   \<and> trim [] = []
   \<and> chat example_server example_runtime (Obj [(lit ''message'', Str [])]) (Completed [Some (lit ''ok'')]) =
       \<lparr>status = 400, body = json
         [(''error'', Str (lit ''Message is required and must be a non-empty string''))]\<rparr>
   \<and> trim [0x20, 0x09, 0x0A, 0x20] = []
   \<and> chat example_server example_runtime (Obj [(lit ''message'', Str [0x20, 0x09, 0x0A, 0x20])])
        (Completed [Some (lit ''ok'')]) =
       \<lparr>status = 400, body = json
         [(''error'', Str (lit ''Message is required and must be a non-empty string''))]\<rparr>"
proof -
  have g: "\<And>m. get_prop (Obj [(lit ''message'', Str m)]) ''message'' = Str m" by simp
  have t1: "trim [] = []" by simp
  have t2: "trim [0x20, 0x09, 0x0A, 0x20] = []" by (simp add: trim_def is_ws_def)
  show ?thesis
    using g t1 t2 chat_blank_message [OF g t1] chat_blank_message [OF g t2] by simp
qed

section \<open>Claims about the chat client\<close>

text \<open>
  C3, as the specification states it: a confirmed clear of a non-empty transcript resets
  the retry counter to zero. After one timed-out request the counter is 1, and it is
  still 1 after the transcript has been cleared.
\<close>

theorem clear_keeps_retryCount_counterexample:
  "messages failed_once \<noteq> []
   \<and> messages (handleClearChat True failed_once) = []
   \<and> retryCount (handleClearChat True failed_once) = 1"
  by (simp add: example_defs client_defs)

text \<open>
  C3, amended: on a non-empty transcript the clear operation asks for confirmation; when
  the user confirms, the transcript is empty afterwards and the retry counter is what it
  was; when the user declines, nothing but the shown dialog changes. On an empty
  transcript the operation changes nothing and shows no dialog. It never touches the
  connection indicator.
\<close>

theorem handleClearChat_effect:
  "(messages s \<noteq> [] \<longrightarrow>
      confirms (handleClearChat answer s) = confirms s @ [ClearPrompt]
      \<and> messages (handleClearChat True s) = []
      \<and> retryCount (handleClearChat True s) = retryCount s
      \<and> handleClearChat False s = s\<lparr>confirms := confirms s @ [ClearPrompt]\<rparr>)
   \<and> (messages s = [] \<longrightarrow> handleClearChat answer s = s)
   \<and> connectionStatus (handleClearChat answer s) = connectionStatus s
   \<and> statusText (handleClearChat answer s) = statusText s"
  by (simp add: handleClearChat_def Let_def hideError_def)

theorem handleClearChat_effect_witness:
  "messages failed_once \<noteq> []
   \<and> confirms (handleClearChat True failed_once) = confirms failed_once @ [ClearPrompt]
   \<and> messages (handleClearChat True failed_once) = []
   \<and> retryCount (handleClearChat True failed_once) = retryCount failed_once
   \<and> messages example_client = []
   \<and> handleClearChat True example_client = example_client"
proof -
  have a: "messages failed_once \<noteq> []" by (rule failed_once_facts)
  have b: "messages example_client = []" by (simp add: example_client_def initial_state_def)
  show ?thesis
    using a b handleClearChat_effect [of failed_once True]
      handleClearChat_effect [of example_client True]
    by simp
qed

text \<open>
  C4, as the specification states it: a request that fails with the code \<^verbatim>\<open>network\<close> is
  followed by a resend prompt while the retry counter is below the maximum. With the
  counter at 0 no timer is set and no dialog follows, where a timeout sets one.
\<close>

theorem network_no_retry_counterexample:
  "retryCount sending_state < RETRY_ATTEMPTS
   \<and> retryTimers (step (Settled (Threw network_error) (lit ''t2'')) sending_state) = []
   \<and> confirms (run [Settled (Threw network_error) (lit ''t2''), RetryTimer True (lit ''t3'')] sending_state) = []
   \<and> retryTimers (step (Settled (Threw timeout_error) (lit ''t2'')) sending_state) = [lit ''hi'']"
  by (simp add: example_defs client_defs)

text \<open>
  C4, amended: the class \<^verbatim>\<open>network\<close> is not retried. For every error with the code
  \<^verbatim>\<open>network\<close> the handler sets no retry timer, leaves the retry counter as it is and shows
  no dialog; it shows the error (an error entry at the end of the transcript and the
  banner, both with the cannot-connect text) and marks the connection offline. An
  \<^verbatim>\<open>APIError\<close> sets a timer for the original message and adds one to the counter exactly
  when the counter is below the maximum and its code is \<^verbatim>\<open>timeout\<close> or \<^verbatim>\<open>rate_limit\<close>, or its
  status is 500 or more and its code is none of \<^verbatim>\<open>network\<close>, \<^verbatim>\<open>quota_exceeded\<close>,
  \<^verbatim>\<open>invalid_key\<close> and \<^verbatim>\<open>context_length\<close>; in every other case (these four codes, and any
  other code with a status below 500) timers and counter stay as they are. An exception
  that is not an \<^verbatim>\<open>APIError\<close> is retried while the counter is below the maximum. No
  branch shows a dialog by itself.
\<close>

theorem handleAPIError_network:
  "retryTimers (handleAPIError (APIError st msg (Some (lit ''network''))) m t s) = retryTimers s
   \<and> retryCount (handleAPIError (APIError st msg (Some (lit ''network''))) m t s) = retryCount s
   \<and> confirms (handleAPIError (APIError st msg (Some (lit ''network''))) m t s) = confirms s
   \<and> connectionStatus (handleAPIError (APIError st msg (Some (lit ''network''))) m t s)
       = lit ''status-dot offline''
   \<and> statusText (handleAPIError (APIError st msg (Some (lit ''network''))) m t s)
       = lit ''Disconnected''
   \<and> messages (handleAPIError (APIError st msg (Some (lit ''network''))) m t s)
       = messages s @
         [\<lparr>role = lit ''error'',
           content = lit ''Cannot connect to server. Please check if the backend is running.'',
           timestamp = t, sources = []\<rparr>]
   \<and> errorDisplay_hidden (handleAPIError (APIError st msg (Some (lit ''network''))) m t s) = False
   \<and> errorMessage_text (handleAPIError (APIError st msg (Some (lit ''network''))) m t s)
       = lit ''Cannot connect to server. Please check if the backend is running.''
   \<and> (retryCount s < RETRY_ATTEMPTS
        \<and> (code = Some (lit ''timeout'') \<or> code = Some (lit ''rate_limit'')
            \<or> 500 \<le> st \<and> code \<noteq> Some (lit ''network'')
               \<and> code \<noteq> Some (lit ''quota_exceeded'') \<and> code \<noteq> Some (lit ''invalid_key'')
               \<and> code \<noteq> Some (lit ''context_length'')) \<longrightarrow>
        retryTimers (handleAPIError (APIError st msg code) m t s) = retryTimers s @ [m]
        \<and> retryCount (handleAPIError (APIError st msg code) m t s) = retryCount s + 1)
   \<and> retryTimers (handleAPIError (APIError st msg code) m t s) =
       (if retryCount s < RETRY_ATTEMPTS
           \<and> (code = Some (lit ''timeout'') \<or> code = Some (lit ''rate_limit'')
               \<or> 500 \<le> st \<and> code \<noteq> Some (lit ''network'')
                  \<and> code \<noteq> Some (lit ''quota_exceeded'') \<and> code \<noteq> Some (lit ''invalid_key'')
                  \<and> code \<noteq> Some (lit ''context_length''))
        then retryTimers s @ [m] else retryTimers s)
   \<and> retryCount (handleAPIError (APIError st msg code) m t s) =
       (if retryCount s < RETRY_ATTEMPTS
           \<and> (code = Some (lit ''timeout'') \<or> code = Some (lit ''rate_limit'')
               \<or> 500 \<le> st \<and> code \<noteq> Some (lit ''network'')
                  \<and> code \<noteq> Some (lit ''quota_exceeded'') \<and> code \<noteq> Some (lit ''invalid_key'')
                  \<and> code \<noteq> Some (lit ''context_length''))
        then retryCount s + 1 else retryCount s)
   \<and> (code = Some (lit ''network'') \<or> code = Some (lit ''quota_exceeded'')
        \<or> code = Some (lit ''invalid_key'') \<or> code = Some (lit ''context_length'')
        \<or> st < 500 \<and> code \<noteq> Some (lit ''timeout'') \<and> code \<noteq> Some (lit ''rate_limit'') \<longrightarrow>
        retryTimers (handleAPIError (APIError st msg code) m t s) = retryTimers s
        \<and> retryCount (handleAPIError (APIError st msg code) m t s) = retryCount s)
   \<and> retryTimers (handleAPIError OtherError m t s) =
       (if retryCount s < RETRY_ATTEMPTS then retryTimers s @ [m] else retryTimers s)
   \<and> retryCount (handleAPIError OtherError m t s) =
       (if retryCount s < RETRY_ATTEMPTS then retryCount s + 1 else retryCount s)
   \<and> confirms (handleAPIError err m t s) = confirms s"
proof -
  have 1: "retryTimers (handleAPIError (APIError st msg (Some (lit ''network''))) m t s) = retryTimers s
   \<and> retryCount (handleAPIError (APIError st msg (Some (lit ''network''))) m t s) = retryCount s
   \<and> confirms (handleAPIError (APIError st msg (Some (lit ''network''))) m t s) = confirms s
   \<and> connectionStatus (handleAPIError (APIError st msg (Some (lit ''network''))) m t s)
       = lit ''status-dot offline''
   \<and> statusText (handleAPIError (APIError st msg (Some (lit ''network''))) m t s)
       = lit ''Disconnected''
   \<and> messages (handleAPIError (APIError st msg (Some (lit ''network''))) m t s)
       = messages s @
         [\<lparr>role = lit ''error'',
           content = lit ''Cannot connect to server. Please check if the backend is running.'',
           timestamp = t, sources = []\<rparr>]
   \<and> errorDisplay_hidden (handleAPIError (APIError st msg (Some (lit ''network''))) m t s) = False
   \<and> errorMessage_text (handleAPIError (APIError st msg (Some (lit ''network''))) m t s)
       = lit ''Cannot connect to server. Please check if the backend is running.''"
    by (simp add: handleAPIError_def Let_def addMessage_def showError_def
        updateConnectionStatus_def lit_eq_iff)
  have 2: "retryTimers (handleAPIError (APIError st msg code) m t s) =
       (if retryCount s < RETRY_ATTEMPTS
           \<and> (code = Some (lit ''timeout'') \<or> code = Some (lit ''rate_limit'')
               \<or> 500 \<le> st \<and> code \<noteq> Some (lit ''network'')
                  \<and> code \<noteq> Some (lit ''quota_exceeded'') \<and> code \<noteq> Some (lit ''invalid_key'')
                  \<and> code \<noteq> Some (lit ''context_length''))
        then retryTimers s @ [m] else retryTimers s)
   \<and> retryCount (handleAPIError (APIError st msg code) m t s) =
       (if retryCount s < RETRY_ATTEMPTS
           \<and> (code = Some (lit ''timeout'') \<or> code = Some (lit ''rate_limit'')
               \<or> 500 \<le> st \<and> code \<noteq> Some (lit ''network'')
                  \<and> code \<noteq> Some (lit ''quota_exceeded'') \<and> code \<noteq> Some (lit ''invalid_key'')
                  \<and> code \<noteq> Some (lit ''context_length''))
        then retryCount s + 1 else retryCount s)"
    by (simp add: handleAPIError_def Let_def addMessage_def showError_def
        updateConnectionStatus_def lit_eq_iff)
  have 3: "retryTimers (handleAPIError OtherError m t s) =
       (if retryCount s < RETRY_ATTEMPTS then retryTimers s @ [m] else retryTimers s)
   \<and> retryCount (handleAPIError OtherError m t s) =
       (if retryCount s < RETRY_ATTEMPTS then retryCount s + 1 else retryCount s)"
    by (simp add: handleAPIError_def Let_def addMessage_def showError_def)
  have 4: "confirms (handleAPIError err m t s) = confirms s"
    using handleAPIError_retry [of err m t s] by simp
  have 5: "retryCount s < RETRY_ATTEMPTS
        \<and> (code = Some (lit ''timeout'') \<or> code = Some (lit ''rate_limit'')
            \<or> 500 \<le> st \<and> code \<noteq> Some (lit ''network'')
               \<and> code \<noteq> Some (lit ''quota_exceeded'') \<and> code \<noteq> Some (lit ''invalid_key'')
               \<and> code \<noteq> Some (lit ''context_length'')) \<Longrightarrow>
        retryTimers (handleAPIError (APIError st msg code) m t s) = retryTimers s @ [m]
        \<and> retryCount (handleAPIError (APIError st msg code) m t s) = retryCount s + 1"
    using 2 by simp
  have 6: "code = Some (lit ''network'') \<or> code = Some (lit ''quota_exceeded'')
        \<or> code = Some (lit ''invalid_key'') \<or> code = Some (lit ''context_length'')
        \<or> st < 500 \<and> code \<noteq> Some (lit ''timeout'') \<and> code \<noteq> Some (lit ''rate_limit'') \<Longrightarrow>
        retryTimers (handleAPIError (APIError st msg code) m t s) = retryTimers s
        \<and> retryCount (handleAPIError (APIError st msg code) m t s) = retryCount s"
    using 2 by (auto simp add: lit_eq_iff)
  show ?thesis
    using 1 2 3 4 5 6 by blast
qed

theorem handleAPIError_network_witness:
  "retryCount example_client < RETRY_ATTEMPTS
   \<and> retryTimers (handleAPIError
        (APIError 0 (lit ''Cannot connect to server.'') (Some (lit ''network'')))
        (lit ''hi'') (lit ''t'') example_client) = retryTimers example_client
   \<and> retryTimers (handleAPIError
        (APIError 408 (lit ''Request timed out.'') (Some (lit ''timeout'')))
        (lit ''hi'') (lit ''t'') example_client) = retryTimers example_client @ [lit ''hi'']
   \<and> retryTimers (handleAPIError
        (APIError 429 (lit ''API quota exceeded.'') (Some (lit ''quota_exceeded'')))
        (lit ''hi'') (lit ''t'') example_client) = retryTimers example_client
   \<and> retryTimers (handleAPIError
        (APIError 400 (lit ''Message too long. Please limit to 4000 characters.'') None)
        (lit ''hi'') (lit ''t'') example_client) = retryTimers example_client
   \<and> retryTimers (handleAPIError
        (APIError 500 (lit ''An unexpected error occurred. Please try again.'')
          (Some (lit ''server_error'')))
        (lit ''hi'') (lit ''t'') example_client) = retryTimers example_client @ [lit ''hi'']
   \<and> retryTimers (handleAPIError OtherError (lit ''hi'') (lit ''t'') example_client)
       = retryTimers example_client @ [lit ''hi'']"
proof -
  have a: "retryCount example_client < RETRY_ATTEMPTS"
    by (simp add: example_client_def initial_state_def RETRY_ATTEMPTS_def)
  have n: "retryTimers (handleAPIError
        (APIError 0 (lit ''Cannot connect to server.'') (Some (lit ''network'')))
        (lit ''hi'') (lit ''t'') example_client) = retryTimers example_client"
    using handleAPIError_network [where s = example_client and st = 0
        and msg = "lit ''Cannot connect to server.''" and m = "lit ''hi''" and t = "lit ''t''"]
    by blast
  have t: "retryTimers (handleAPIError
        (APIError 408 (lit ''Request timed out.'') (Some (lit ''timeout'')))
        (lit ''hi'') (lit ''t'') example_client) = retryTimers example_client @ [lit ''hi'']"
    using a handleAPIError_network [where s = example_client and st = 408
        and msg = "lit ''Request timed out.''" and m = "lit ''hi''" and t = "lit ''t''"
        and code = "Some (lit ''timeout'')"]
    by blast
  have q: "retryTimers (handleAPIError
        (APIError 429 (lit ''API quota exceeded.'') (Some (lit ''quota_exceeded'')))
        (lit ''hi'') (lit ''t'') example_client) = retryTimers example_client"
    using handleAPIError_network [where s = example_client and st = 429
        and msg = "lit ''API quota exceeded.''" and m = "lit ''hi''" and t = "lit ''t''"
        and code = "Some (lit ''quota_exceeded'')"]
    by blast
  have v: "retryTimers (handleAPIError
        (APIError 400 (lit ''Message too long. Please limit to 4000 characters.'') None)
        (lit ''hi'') (lit ''t'') example_client) = retryTimers example_client"
    using handleAPIError_network [where s = example_client and st = 400
        and msg = "lit ''Message too long. Please limit to 4000 characters.''"
        and m = "lit ''hi''" and t = "lit ''t''" and code = None]
    by simp
  have e: "retryTimers (handleAPIError
        (APIError 500 (lit ''An unexpected error occurred. Please try again.'')
          (Some (lit ''server_error'')))
        (lit ''hi'') (lit ''t'') example_client) = retryTimers example_client @ [lit ''hi'']"
    using a handleAPIError_network [where s = example_client and st = 500
        and msg = "lit ''An unexpected error occurred. Please try again.''"
        and m = "lit ''hi''" and t = "lit ''t''" and code = "Some (lit ''server_error'')"]
    by (simp add: lit_eq_iff)
  have o: "retryTimers (handleAPIError OtherError (lit ''hi'') (lit ''t'') example_client)
       = retryTimers example_client @ [lit ''hi'']"
    using a handleAPIError_network [where s = example_client and m = "lit ''hi''"
        and t = "lit ''t''"]
    by simp
  show ?thesis using a n t q v e o by blast
qed

text \<open>
  C8, as the specification states it: a single original message is never prompted for
  resend more than \<^verbatim>\<open>RETRY_ATTEMPTS\<close> times. The counter is shared by all messages and every
  success resets it: when another message is answered before each retry timer fires, the
  message \<^verbatim>\<open>A\<close>, entered once, is prompted four times.
\<close>

theorem interleaved_prompts_counterexample:
  "RETRY_ATTEMPTS < retry_prompts_for (lit ''A'') (confirms (run interleaved_trace example_client))"
proof -
  let ?s0 = "run [Input (lit ''A''), Send (lit ''t''), Settled (Threw timeout_error) (lit ''t'')]
      example_client"
  let ?s1 = "run other_round ?s0"
  let ?s2 = "run other_round ?s1"
  let ?s3 = "run other_round ?s2"
  let ?s4 = "run other_round ?s3"
  note r0 = first_failure
  note r1 = other_round_effect [of ?s0, OF r0 [THEN conjunct1] r0 [THEN conjunct2, THEN conjunct1]
      r0 [THEN conjunct2, THEN conjunct2, THEN conjunct1]]
  note r2 = other_round_effect [of ?s1, OF r1 [THEN conjunct1] r1 [THEN conjunct2, THEN conjunct1]
      r1 [THEN conjunct2, THEN conjunct2, THEN conjunct1]]
  note r3 = other_round_effect [of ?s2, OF r2 [THEN conjunct1] r2 [THEN conjunct2, THEN conjunct1]
      r2 [THEN conjunct2, THEN conjunct2, THEN conjunct1]]
  note r4 = other_round_effect [of ?s3, OF r3 [THEN conjunct1] r3 [THEN conjunct2, THEN conjunct1]
      r3 [THEN conjunct2, THEN conjunct2, THEN conjunct1]]
  have e: "run interleaved_trace example_client = ?s4"
    by (simp only: interleaved_trace_def run_append)
  have "confirms ?s4 = [RetryPrompt 0 (lit ''A''), RetryPrompt 0 (lit ''A''),
      RetryPrompt 0 (lit ''A''), RetryPrompt 0 (lit ''A'')]"
    using r0 r1 r2 r3 r4 by simp
  then show ?thesis by (simp add: e RETRY_ATTEMPTS_def)
qed

text \<open>
  C8, amended: after every sequence of client events the retry counter is at most
  \<^verbatim>\<open>RETRY_ATTEMPTS\<close> (from the loaded page, and from every state within the bound); a
  request that settles sets at most one retry timer, and a timer that fires shows exactly
  one prompt; a successful response resets the counter to zero, sets no timer and shows
  no prompt. The number of prompts scheduled never decreases, and over every sequence of
  events without a successful response, from any state, it grows by exactly the growth
  of the counter: by at most \<^verbatim>\<open>RETRY_ATTEMPTS\<close> less the counter at the start, so by at most
  \<^verbatim>\<open>RETRY_ATTEMPTS\<close> between two successful responses. When no timer waits at the start of
  such a sequence, no message is prompted more than \<^verbatim>\<open>RETRY_ATTEMPTS\<close> times in it; from
  the loaded page to the first success that holds for every message.
\<close>

theorem retry_counter_bounded:
  "retryCount (run evs (initial_state sid page)) \<le> RETRY_ATTEMPTS
   \<and> (retryCount s \<le> RETRY_ATTEMPTS \<longrightarrow> retryCount (run evs s) \<le> RETRY_ATTEMPTS)
   \<and> length (retryTimers (step (Settled res t) s)) \<le> length (retryTimers s) + 1
   \<and> (retryTimers s \<noteq> [] \<longrightarrow>
        confirms (step (RetryTimer answer t) s)
          = confirms s @ [RetryPrompt (retryCount s) (hd (retryTimers s))]
        \<and> retryTimers (step (RetryTimer answer t) s) = tl (retryTimers s))
   \<and> (inFlight s \<noteq> None \<longrightarrow> retryCount (step (Settled (Resolved reply srcs) t) s) = 0)
   \<and> retryTimers (step (Settled (Resolved reply srcs) t) s) = retryTimers s
   \<and> confirms (step (Settled (Resolved reply srcs) t) s) = confirms s
   \<and> scheduled s \<le> scheduled (run evs s)
   \<and> (list_all (\<lambda>e. \<not> is_success e) evs \<longrightarrow>
        scheduled (run evs s) + retryCount s = scheduled s + retryCount (run evs s))
   \<and> (list_all (\<lambda>e. \<not> is_success e) evs \<and> retryCount s \<le> RETRY_ATTEMPTS \<longrightarrow>
        scheduled (run evs s) + retryCount s \<le> scheduled s + RETRY_ATTEMPTS)
   \<and> (list_all (\<lambda>e. \<not> is_success e) evs \<and> retryCount s \<le> RETRY_ATTEMPTS
        \<and> retryTimers s = [] \<longrightarrow>
        retry_prompts_for m (drop (length (confirms s)) (confirms (run evs s))) \<le> RETRY_ATTEMPTS)
   \<and> (list_all (\<lambda>e. \<not> is_success e) evs \<longrightarrow>
        scheduled (run evs (initial_state sid page)) \<le> RETRY_ATTEMPTS
        \<and> retry_prompts_for m (confirms (run evs (initial_state sid page))) \<le> RETRY_ATTEMPTS)"
proof -
  have 1: "retryCount (run evs (initial_state sid page)) \<le> RETRY_ATTEMPTS"
    by (rule run_retryCount) (simp add: initial_state_def)
  have 2: "retryCount s \<le> RETRY_ATTEMPTS \<Longrightarrow> retryCount (run evs s) \<le> RETRY_ATTEMPTS"
    by (rule run_retryCount)
  have 3: "length (retryTimers (step (Settled res t) s)) \<le> length (retryTimers s) + 1"
    using settled_retry [of res t s] by auto
  have 4: "retryTimers s \<noteq> [] \<Longrightarrow>
        confirms (step (RetryTimer answer t) s)
          = confirms s @ [RetryPrompt (retryCount s) (hd (retryTimers s))]
        \<and> retryTimers (step (RetryTimer answer t) s) = tl (retryTimers s)"
    by (cases "retryTimers s")
       (simp_all add: retryCallback_def Let_def handleSendMessage_frame handleInputChange_frame)
  have 5: "inFlight s \<noteq> None \<Longrightarrow> retryCount (step (Settled (Resolved reply srcs) t) s) = 0"
    by (auto simp add: handleSendMessage_settled_def Let_def handleInputChange_frame
        addMessage_def hideTypingIndicator_def)
  have 6: "retryTimers (step (Settled (Resolved reply srcs) t) s) = retryTimers s
      \<and> confirms (step (Settled (Resolved reply srcs) t) s) = confirms s"
    using success_keeps_prompts [of reply srcs t s] by simp
  have 7: "scheduled s \<le> scheduled (run evs s)" by (rule run_scheduled_mono)
  have 8: "list_all (\<lambda>e. \<not> is_success e) evs \<Longrightarrow>
        scheduled (run evs s) + retryCount s = scheduled s + retryCount (run evs s)"
    by (rule run_scheduled)
  have 9: "list_all (\<lambda>e. \<not> is_success e) evs \<Longrightarrow> retryCount s \<le> RETRY_ATTEMPTS \<Longrightarrow>
        scheduled (run evs s) + retryCount s \<le> scheduled s + RETRY_ATTEMPTS"
    by (rule run_segment_bound)
  have 10: "list_all (\<lambda>e. \<not> is_success e) evs \<Longrightarrow> retryCount s \<le> RETRY_ATTEMPTS \<Longrightarrow>
        retryTimers s = [] \<Longrightarrow>
        retry_prompts_for m (drop (length (confirms s)) (confirms (run evs s))) \<le> RETRY_ATTEMPTS"
    by (rule run_segment_message)
  have 11: "list_all (\<lambda>e. \<not> is_success e) evs \<Longrightarrow>
        scheduled (run evs (initial_state sid page)) \<le> RETRY_ATTEMPTS
        \<and> retry_prompts_for m (confirms (run evs (initial_state sid page))) \<le> RETRY_ATTEMPTS"
  proof -
    assume a: "list_all (\<lambda>e. \<not> is_success e) evs"
    have b: "scheduled (run evs (initial_state sid page)) \<le> RETRY_ATTEMPTS"
      using a by (rule run_initial_scheduled)
    have "retry_prompts_for m (confirms (run evs (initial_state sid page)))
        \<le> retry_prompts (confirms (run evs (initial_state sid page)))"
      by (rule retry_prompts_for_le)
    also have "\<dots> \<le> scheduled (run evs (initial_state sid page))"
      by (simp add: scheduled_def)
    finally show ?thesis using b by simp
  qed
  show ?thesis
    using 1 2 3 4 5 6 7 8 9 10 11 by blast
qed

theorem retry_counter_bounded_witness:
  "retryCount failed_once \<le> RETRY_ATTEMPTS
   \<and> retryCount (run retry_chain failed_once) \<le> RETRY_ATTEMPTS
   \<and> retryTimers failed_once \<noteq> []
   \<and> confirms (step (RetryTimer True (lit ''t3'')) failed_once)
       = confirms failed_once @ [RetryPrompt (retryCount failed_once) (hd (retryTimers failed_once))]
   \<and> inFlight retrying_state \<noteq> None
   \<and> retryCount retrying_state = 1
   \<and> retryCount (step (Settled (Resolved (lit ''ok'') []) (lit ''t4'')) retrying_state) = 0
   \<and> list_all (\<lambda>e. \<not> is_success e) retry_chain
   \<and> retryCount after_success \<le> RETRY_ATTEMPTS
   \<and> scheduled (run retry_chain after_success) + retryCount after_success
       \<le> scheduled after_success + RETRY_ATTEMPTS
   \<and> retryCount answered_once \<le> RETRY_ATTEMPTS
   \<and> retryTimers answered_once = []
   \<and> retry_prompts_for (lit ''A'')
         (drop (length (confirms answered_once)) (confirms (run retry_chain answered_once)))
       \<le> RETRY_ATTEMPTS
   \<and> retry_prompts_for (lit ''A'') (confirms (run retry_chain example_client))
       \<le> RETRY_ATTEMPTS"
proof -
  have a: "retryCount failed_once \<le> RETRY_ATTEMPTS" by (rule failed_once_facts)
  have b: "retryTimers failed_once \<noteq> []" by (rule failed_once_facts)
  have c: "inFlight retrying_state \<noteq> None" by (rule retrying_state_facts)
  have c': "retryCount retrying_state = 1" by (rule retrying_state_facts)
  have d: "list_all (\<lambda>e. \<not> is_success e) retry_chain" by (rule retry_chain_no_success)
  have k: "retryCount after_success \<le> RETRY_ATTEMPTS" by (simp add: after_success_facts)
  have l: "retryCount answered_once \<le> RETRY_ATTEMPTS" by (rule answered_once_facts)
  have n: "retryTimers answered_once = []" by (rule answered_once_facts)
  note T1 = retry_counter_bounded [where s = failed_once and evs = retry_chain
      and answer = True and t = "lit ''t3''" and sid = "lit ''session_1''" and page = example_page
      and m = "lit ''A''", folded example_client_def]
  note T2 = retry_counter_bounded [where s = retrying_state and reply = "lit ''ok''"
      and srcs = "[]" and t = "lit ''t4''"]
  note T3 = retry_counter_bounded [where s = after_success and evs = retry_chain]
  note T4 = retry_counter_bounded [where s = answered_once and evs = retry_chain
      and m = "lit ''A''"]
  have e: "retryCount (run retry_chain failed_once) \<le> RETRY_ATTEMPTS" using T1 a by blast
  have f: "confirms (step (RetryTimer True (lit ''t3'')) failed_once)
       = confirms failed_once @ [RetryPrompt (retryCount failed_once) (hd (retryTimers failed_once))]"
    using T1 b by blast
  have g: "retryCount (step (Settled (Resolved (lit ''ok'') []) (lit ''t4'')) retrying_state) = 0"
    using T2 c by blast
  have h: "retry_prompts_for (lit ''A'') (confirms (run retry_chain example_client))
       \<le> RETRY_ATTEMPTS"
    using T1 d by blast
  have i: "scheduled (run retry_chain after_success) + retryCount after_success
       \<le> scheduled after_success + RETRY_ATTEMPTS"
    using T3 d k by blast
  have j: "retry_prompts_for (lit ''A'')
         (drop (length (confirms answered_once)) (confirms (run retry_chain answered_once)))
       \<le> RETRY_ATTEMPTS"
    using T4 d l n by blast
  show ?thesis using a b c c' d e f g h i j k l n by blast
qed

text \<open>
  C9, as the specification states it: no step of sending a chat message modifies the
  connection indicator. A request that fails with the code \<^verbatim>\<open>network\<close> turns an indicator
  that shows online to offline.
\<close>

theorem network_sets_offline_counterexample:
  "connectionStatus sending_state = lit ''status-dot online''
   \<and> connectionStatus (step (Settled (Threw network_error) (lit ''t2'')) sending_state)
       = lit ''status-dot offline''
   \<and> lit ''status-dot offline'' \<noteq> lit ''status-dot online''"
  by (simp add: example_defs client_defs)

text \<open>
  C9, amended: starting a send and running a retry callback leave the connection
  indicator as it is, and so does a request that settles in any way but an error with the
  code \<^verbatim>\<open>network\<close>; that error marks the connection offline. A health check leaves the
  transcript, the loading flag and the retry counter as they are.
\<close>

theorem send_and_health_frames:
  "connectionStatus (handleSendMessage t s) = connectionStatus s
   \<and> statusText (handleSendMessage t s) = statusText s
   \<and> connectionStatus (retryCallback answer t s) = connectionStatus s
   \<and> statusText (retryCallback answer t s) = statusText s
   \<and> ((\<forall>st msg. res \<noteq> Threw (APIError st msg (Some (lit ''network'')))) \<longrightarrow>
        connectionStatus (handleSendMessage_settled res t s) = connectionStatus s
        \<and> statusText (handleSendMessage_settled res t s) = statusText s)
   \<and> (inFlight s \<noteq> None \<longrightarrow>
        connectionStatus (handleSendMessage_settled
            (Threw (APIError st msg (Some (lit ''network'')))) t s) = lit ''status-dot offline''
        \<and> statusText (handleSendMessage_settled
            (Threw (APIError st msg (Some (lit ''network'')))) t s) = lit ''Disconnected'')
   \<and> messages (checkBackendHealth h s) = messages s
   \<and> isLoading (checkBackendHealth h s) = isLoading s
   \<and> retryCount (checkBackendHealth h s) = retryCount s"
proof -
  have 1: "connectionStatus (retryCallback answer t s) = connectionStatus s
      \<and> statusText (retryCallback answer t s) = statusText s"
    by (cases "retryTimers s")
       (simp_all add: retryCallback_def Let_def handleSendMessage_frame handleInputChange_frame)
  have 2: "inFlight s \<noteq> None \<Longrightarrow>
        connectionStatus (handleSendMessage_settled
            (Threw (APIError st msg (Some (lit ''network'')))) t s) = lit ''status-dot offline''
        \<and> statusText (handleSendMessage_settled
            (Threw (APIError st msg (Some (lit ''network'')))) t s) = lit ''Disconnected''"
    by (auto simp add: handleSendMessage_settled_def Let_def handleInputChange_frame
        handleAPIError_def addMessage_def showError_def hideTypingIndicator_def
        updateConnectionStatus_def lit_eq_iff)
  have 3: "messages (checkBackendHealth h s) = messages s
      \<and> isLoading (checkBackendHealth h s) = isLoading s
      \<and> retryCount (checkBackendHealth h s) = retryCount s"
    by (simp add: checkBackendHealth_def updateConnectionStatus_def split: option.splits)
  show ?thesis
    using 1 2 3 handleSendMessage_settled_connection [of res t s]
    by (simp add: handleSendMessage_frame)
qed

theorem send_and_health_frames_witness:
  "(\<forall>st msg. Threw timeout_error \<noteq> Threw (APIError st msg (Some (lit ''network''))))
   \<and> connectionStatus (handleSendMessage_settled (Threw timeout_error) (lit ''t2'') sending_state)
       = connectionStatus sending_state
   \<and> inFlight sending_state \<noteq> None
   \<and> connectionStatus (handleSendMessage_settled
        (Threw (APIError 0 (lit ''Cannot connect to server.'') (Some (lit ''network''))))
        (lit ''t2'') sending_state) = lit ''status-dot offline''"
proof -
  have a: "\<forall>st msg. Threw timeout_error \<noteq> Threw (APIError st msg (Some (lit ''network'')))"
    by (simp add: timeout_error_def lit_eq_iff)
  have b: "inFlight sending_state \<noteq> None" by (rule sending_state_inFlight)
  note T = send_and_health_frames [where s = sending_state and t = "lit ''t2''"
      and res = "Threw timeout_error" and st = 0 and msg = "lit ''Cannot connect to server.''"]
  have c: "connectionStatus (handleSendMessage_settled (Threw timeout_error) (lit ''t2'') sending_state)
       = connectionStatus sending_state"
    using T a by blast
  have d: "connectionStatus (handleSendMessage_settled
        (Threw (APIError 0 (lit ''Cannot connect to server.'') (Some (lit ''network''))))
        (lit ''t2'') sending_state) = lit ''status-dot offline''"
    using T b by blast
  show ?thesis using a b c d by blast
qed

end
